theory Spec2Isabelle
  imports Complex_Main
begin

section \<open>Tables, files and errors\<close>

text \<open>
  The pipeline of \<^verbatim>\<open>core_pipeline.py\<close> works on tables read with \<^verbatim>\<open>pd.read_csv\<close>. A numeric
  cell is modelled as a real number (exact arithmetic instead of IEEE doubles); the missing
  value NaN is \<open>None\<close>. A table has a positional row index \<open>0..<nrows\<close> (the default index of
  \<^verbatim>\<open>read_csv\<close>) and an ordered list of named columns.
\<close>

type_synonym cell = "real option"

type_synonym column = "cell list"

record 'c table =
  nrows :: nat
  cols :: "(string \<times> 'c list) list"

type_synonym frame = "cell table"

text \<open>The result of \<^verbatim>\<open>DataFrame.quantile\<close> is a Series, which carries a name.\<close>

record series =
  sname :: string
  svals :: column

datatype error = OSError string | KeyError string | ValueError string

text \<open>
  \<^verbatim>\<open>read_csv\<close> gives every column a dtype: \<^verbatim>\<open>int64\<close> when each of its cells is written as an
  integer, \<^verbatim>\<open>float64\<close> otherwise. The table of a file holds the values of its cells, an integer
  as the real number it is; the names of the \<^verbatim>\<open>int64\<close> columns are kept beside the table.
\<close>

datatype node = Dir "string list" | File frame "string list"

type_synonym fs = "string \<rightharpoonup> node"

text \<open>
  The content of a CSV file is the table that \<^verbatim>\<open>read_csv\<close> parses from it; a directory is the
  list of its entries in the order \<^verbatim>\<open>os.listdir\<close> returns them. A path that is absent or of
  the wrong kind raises \<^verbatim>\<open>OSError\<close>. Writing a file stores its table and the names of its
  \<^verbatim>\<open>int64\<close> columns under the path; the listings of the directories stay as they are, and
  failures of the operating system while writing (a missing output directory) are not
  modelled: in the model a write always succeeds.
\<close>

definition listdir :: "fs \<Rightarrow> string \<Rightarrow> error + string list" where
  "listdir fs p = (case fs p of Some (Dir es) \<Rightarrow> Inr es | _ \<Rightarrow> Inl (OSError p))"

definition read_csv :: "fs \<Rightarrow> string \<Rightarrow> error + frame" where
  "read_csv fs p = (case fs p of Some (File t ints) \<Rightarrow> Inr t | _ \<Rightarrow> Inl (OSError p))"

definition int64_columns :: "fs \<Rightarrow> string \<Rightarrow> string list" where
  "int64_columns fs p = (case fs p of Some (File t ints) \<Rightarrow> ints | _ \<Rightarrow> [])"

definition to_csv_dtypes :: "frame \<Rightarrow> string list \<Rightarrow> string \<Rightarrow> fs \<Rightarrow> fs" where
  "to_csv_dtypes df ints p fs = fs(p \<mapsto> File df ints)"

text \<open>Writing a table that has no \<^verbatim>\<open>int64\<close> column.\<close>

definition to_csv :: "frame \<Rightarrow> string \<Rightarrow> fs \<Rightarrow> fs" where
  "to_csv df p fs = to_csv_dtypes df [] p fs"

text \<open>\<^verbatim>\<open>os.path.join(a, b)\<close> on POSIX.\<close>

definition path_join :: "string \<Rightarrow> string \<Rightarrow> string" where
  "path_join a b =
     (if b \<noteq> [] \<and> hd b = CHR ''/'' then b
      else if a = [] \<or> last a = CHR ''/'' then a @ b
      else a @ ''/'' @ b)"

section \<open>Strings\<close>

text \<open>\<^verbatim>\<open>s.endswith(suf)\<close>.\<close>

definition endswith :: "string \<Rightarrow> string \<Rightarrow> bool" where
  "endswith s suf = (length suf \<le> length s \<and> drop (length s - length suf) s = suf)"

text \<open>
  A Python slice \<^verbatim>\<open>s[i:j]\<close>: a negative bound counts from the end, and every bound is clamped
  to \<open>0..length s\<close>.
\<close>

definition slice_index :: "nat \<Rightarrow> int \<Rightarrow> nat" where
  "slice_index n i = (if i < 0 then nat (int n + i) else min (nat i) n)"

definition py_slice :: "'a list \<Rightarrow> int \<Rightarrow> int \<Rightarrow> 'a list" where
  "py_slice s i j =
     (let a = slice_index (length s) i; b = slice_index (length s) j
      in take (b - a) (drop a s))"

text \<open>\<^verbatim>\<open>s.split(sep)\<close> for a one-character separator: always at least one piece.\<close>

fun split_str :: "char \<Rightarrow> string \<Rightarrow> string list" where
  "split_str sep [] = [[]]"
| "split_str sep (c # cs) =
     (if c = sep then [] # split_str sep cs
      else (c # hd (split_str sep cs)) # tl (split_str sep cs))"

text \<open>\<^verbatim>\<open>year = fname[-8:-4]\<close> (heatwave stage) and \<^verbatim>\<open>year = col.split("_")[-1]\<close>.\<close>

definition year_of_filename :: "string \<Rightarrow> string" where
  "year_of_filename fname = py_slice fname (- 8) (- 4)"

definition year_of_column :: "string \<Rightarrow> string" where
  "year_of_column col = last (split_str CHR ''_'' col)"

section \<open>Series and table operations\<close>

text \<open>Reading position \<open>i\<close> of a column after alignment: a label the column lacks gives NaN.\<close>

definition nth_cell :: "column \<Rightarrow> nat \<Rightarrow> cell" where
  "nth_cell c i = (if i < length c then c ! i else None)"

definition reindex_col :: "nat \<Rightarrow> column \<Rightarrow> column" where
  "reindex_col n c = map (nth_cell c) [0..<n]"

definition reindex :: "nat \<Rightarrow> frame \<Rightarrow> frame" where
  "reindex n df = \<lparr>nrows = n, cols = map (\<lambda>(name, c). (name, reindex_col n c)) (cols df)\<rparr>"

definition columns :: "'c table \<Rightarrow> string list" where
  "columns df = map fst (cols df)"

text \<open>\<^verbatim>\<open>df[name]\<close>: a missing column raises \<^verbatim>\<open>KeyError\<close>.\<close>

definition getitem :: "frame \<Rightarrow> string \<Rightarrow> error + column" where
  "getitem df name =
     (case map_of (cols df) name of None \<Rightarrow> Inl (KeyError name) | Some c \<Rightarrow> Inr c)"

text \<open>Replacing a column in place, or appending it when the name is new.\<close>

fun upsert :: "string \<Rightarrow> 'c list \<Rightarrow> (string \<times> 'c list) list \<Rightarrow> (string \<times> 'c list) list" where
  "upsert name v [] = [(name, v)]"
| "upsert name v ((k, c) # rest) =
     (if k = name then (k, v) # rest else (k, c) # upsert name v rest)"

text \<open>
  \<^verbatim>\<open>df[name] = v\<close> for a Series \<open>v\<close>: a frame whose index is still empty takes the index of a
  non-empty value (its columns are filled with NaN); then the value is aligned to the
  frame's index.
\<close>

definition setitem :: "frame \<Rightarrow> string \<Rightarrow> column \<Rightarrow> frame" where
  "setitem df name v =
     (let df1 = (if nrows df = 0 \<and> 0 < length v then reindex (length v) df else df)
      in df1\<lparr>cols := upsert name (reindex_col (nrows df1) v) (cols df1)\<rparr>)"

definition empty_frame :: frame where
  "empty_frame = \<lparr>nrows = 0, cols = []\<rparr>"

text \<open>
  Arithmetic of two Series aligns them on the union of their indexes; NaN absorbs. A
  Series and a scalar are combined cell by cell.
\<close>

definition cell_binop :: "(real \<Rightarrow> real \<Rightarrow> real) \<Rightarrow> cell \<Rightarrow> cell \<Rightarrow> cell" where
  "cell_binop f a b =
     (case a of None \<Rightarrow> None | Some x \<Rightarrow> (case b of None \<Rightarrow> None | Some y \<Rightarrow> Some (f x y)))"

definition series_binop :: "(real \<Rightarrow> real \<Rightarrow> real) \<Rightarrow> column \<Rightarrow> column \<Rightarrow> column" where
  "series_binop f a b =
     map (\<lambda>i. cell_binop f (nth_cell a i) (nth_cell b i)) [0..<max (length a) (length b)]"

definition series_scalar :: "(real \<Rightarrow> real) \<Rightarrow> column \<Rightarrow> column" where
  "series_scalar f a = map (map_option f) a"

text \<open>
  Arithmetic on \<^verbatim>\<open>int64\<close> wraps around silently: the product of two 64-bit integers is taken
  modulo \<open>2 ^ 64\<close> into the range from \<open>- 2 ^ 63\<close> to \<open>2 ^ 63 - 1\<close>. A product with a
  \<^verbatim>\<open>float64\<close> operand is a \<^verbatim>\<open>float64\<close> product, here the product of the reals.
\<close>

definition wrap64 :: "int \<Rightarrow> int" where
  "wrap64 k = (k + 2 ^ 63) mod 2 ^ 64 - 2 ^ 63"

definition int64_times :: "real \<Rightarrow> real \<Rightarrow> real" where
  "int64_times x y = of_int (wrap64 (\<lfloor>x\<rfloor> * \<lfloor>y\<rfloor>))"

definition times_dtype :: "bool \<Rightarrow> real \<Rightarrow> real \<Rightarrow> real" where
  "times_dtype int64 = (if int64 then int64_times else (*))"

text \<open>
  \<^verbatim>\<open>a * b\<close> for two Series, \<open>a_int64\<close> and \<open>b_int64\<close> telling whether their dtype is
  \<^verbatim>\<open>int64\<close>. The product is an \<^verbatim>\<open>int64\<close> product when both are \<^verbatim>\<open>int64\<close> and have the same
  index; when the indexes differ, the alignment fills the shorter Series with NaN, which
  makes it \<^verbatim>\<open>float64\<close>.
\<close>

definition mul_int64 :: "bool \<Rightarrow> column \<Rightarrow> bool \<Rightarrow> column \<Rightarrow> bool" where
  "mul_int64 a_int64 a b_int64 b = (a_int64 \<and> b_int64 \<and> length a = length b)"

definition series_mul :: "bool \<Rightarrow> column \<Rightarrow> bool \<Rightarrow> column \<Rightarrow> column" where
  "series_mul a_int64 a b_int64 b = series_binop (times_dtype (mul_int64 a_int64 a b_int64 b)) a b"

text \<open>The product as a Series with its dtype flag.\<close>

definition series_mul_typed :: "bool \<times> column \<Rightarrow> bool \<times> column \<Rightarrow> bool \<times> column" where
  "series_mul_typed a b =
     (mul_int64 (fst a) (snd a) (fst b) (snd b), series_mul (fst a) (snd a) (fst b) (snd b))"

text \<open>
  The dtypes after \<^verbatim>\<open>df[name] = v\<close>, for a frame with the \<^verbatim>\<open>int64\<close> columns \<open>ints\<close>: filling
  with NaN makes a column \<^verbatim>\<open>float64\<close>. That happens to every column of a frame that takes
  the index of the value, and to the value when it is shorter than the index.
\<close>

definition setitem_int64 :: "frame \<Rightarrow> string list \<Rightarrow> string \<Rightarrow> bool \<Rightarrow> column \<Rightarrow> string list" where
  "setitem_int64 df ints name v_int64 v =
     (let grown = (nrows df = 0 \<and> 0 < length v);
          n = (if grown then length v else nrows df);
          kept = (if grown then [] else filter (\<lambda>k. k \<noteq> name) ints)
      in if v_int64 \<and> n \<le> length v then name # kept else kept)"

text \<open>
  A \<^verbatim>\<open>DataFrame\<close> that a stage builds is the pair of its table and its \<^verbatim>\<open>int64\<close> columns; a
  Series that is assigned to it is the pair of its dtype flag and its values.
\<close>

definition setitem_typed ::
  "frame \<times> string list \<Rightarrow> string \<Rightarrow> bool \<times> column \<Rightarrow> frame \<times> string list" where
  "setitem_typed df name v =
     (setitem (fst df) name (snd v), setitem_int64 (fst df) (snd df) name (fst v) (snd v))"

section \<open>Stage 1: baseline threshold\<close>

fun read_all :: "fs \<Rightarrow> string list \<Rightarrow> error + frame list" where
  "read_all fs [] = Inr []"
| "read_all fs (f # rest) =
     (case read_csv fs f of
        Inl e \<Rightarrow> Inl e
      | Inr df \<Rightarrow> (case read_all fs rest of Inl e \<Rightarrow> Inl e | Inr dfs \<Rightarrow> Inr (df # dfs)))"

text \<open>
  \<^verbatim>\<open>pd.concat(dfs, axis=1)\<close>: an empty list raises \<^verbatim>\<open>ValueError\<close>; otherwise the tables are
  put side by side on the union of their row indexes, shorter tables filled with NaN.
\<close>

definition concat_axis1 :: "frame list \<Rightarrow> error + frame" where
  "concat_axis1 dfs =
     (if dfs = [] then Inl (ValueError ''No objects to concatenate'')
      else let n = foldr max (map nrows dfs) 0
           in Inr \<lparr>nrows = n, cols = concat (map (\<lambda>df. cols (reindex n df)) dfs)\<rparr>)"

text \<open>
  The quantile of one row with the default \<^verbatim>\<open>interpolation='linear'\<close>, as numpy computes it:
  NaN cells are left out, the rest is sorted, the virtual index is \<open>(n - 1) * q\<close>, and the
  two neighbours are blended by \<^verbatim>\<open>_lerp\<close>. A row without values gives NaN.
\<close>

definition lerp :: "real \<Rightarrow> real \<Rightarrow> real \<Rightarrow> real" where
  "lerp a b t = (if 1 / 2 \<le> t then b - (b - a) * (1 - t) else a + (b - a) * t)"

definition quantile_linear :: "real \<Rightarrow> real list \<Rightarrow> cell" where
  "quantile_linear q xs =
     (if xs = [] then None
      else let s = sort xs; n = length xs;
               h = real (n - 1) * q;
               lo = nat \<lfloor>h\<rfloor>;
               hi = min (lo + 1) (n - 1)
           in Some (lerp (s ! lo) (s ! hi) (h - real lo)))"

definition row_values :: "frame \<Rightarrow> nat \<Rightarrow> real list" where
  "row_values df i =
     concat (map (\<lambda>(name, c). case nth_cell c i of None \<Rightarrow> [] | Some x \<Rightarrow> [x]) (cols df))"

text \<open>
  \<^verbatim>\<open>df.quantile(q, axis=1)\<close>: one value per row. The Series it returns is named after the
  quantile level \<open>q\<close>; \<open>qname\<close> is that level as \<^verbatim>\<open>str\<close> prints it.
\<close>

definition quantile_axis1 :: "real \<Rightarrow> string \<Rightarrow> frame \<Rightarrow> series" where
  "quantile_axis1 q qname df =
     \<lparr>sname = qname, svals = map (\<lambda>i. quantile_linear q (row_values df i)) [0..<nrows df]\<rparr>"

text \<open>
  \<^verbatim>\<open>Series.to_csv(path, index=False)\<close>: a header line with the name of the Series, then one
  value per line and no index column.
\<close>

definition series_to_csv :: "series \<Rightarrow> string \<Rightarrow> fs \<Rightarrow> fs" where
  "series_to_csv s p fs = to_csv \<lparr>nrows = length (svals s), cols = [(sname s, svals s)]\<rparr> p fs"

definition baseline_percent975 :: "fs \<Rightarrow> string \<Rightarrow> error + series" where
  "baseline_percent975 fs baseline_dir =
     (case listdir fs baseline_dir of
        Inl e \<Rightarrow> Inl e
      | Inr es \<Rightarrow>
          let files = map (path_join baseline_dir) (filter (\<lambda>f. endswith f ''.csv'') es)
          in (case read_all fs files of
                Inl e \<Rightarrow> Inl e
              | Inr dfs \<Rightarrow>
                  (case concat_axis1 dfs of
                     Inl e \<Rightarrow> Inl e
                   | Inr baseline_all \<Rightarrow> Inr (quantile_axis1 0.975 ''0.975'' baseline_all))))"

text \<open>
  A stage returns the error it raised, if any, and the file system it leaves behind.
\<close>

definition calculate_baseline_threshold :: "string \<Rightarrow> string \<Rightarrow> fs \<Rightarrow> error option \<times> fs" where
  "calculate_baseline_threshold baseline_dir output_file fs =
     (case baseline_percent975 fs baseline_dir of
        Inl e \<Rightarrow> (Some e, fs)
      | Inr percent975 \<Rightarrow> (None, series_to_csv percent975 output_file fs))"

section \<open>Stage 2: heatwave days\<close>

text \<open>\<^verbatim>\<open>data.rename(columns={'Unnamed: 0': 'FID'})\<close> and \<^verbatim>\<open>data.drop(columns=['FID'])\<close>.\<close>

definition rename_unnamed :: "frame \<Rightarrow> frame" where
  "rename_unnamed df =
     df\<lparr>cols := map (\<lambda>(name, c). (if name = ''Unnamed: 0'' then ''FID'' else name, c)) (cols df)\<rparr>"

definition drop_column :: "string \<Rightarrow> frame \<Rightarrow> frame" where
  "drop_column name df = df\<lparr>cols := filter (\<lambda>(k, c). k \<noteq> name) (cols df)\<rparr>"

text \<open>A comparison with NaN on either side is false.\<close>

definition cell_ge :: "cell \<Rightarrow> cell \<Rightarrow> bool" where
  "cell_ge t h =
     (case t of None \<Rightarrow> False | Some a \<Rightarrow> (case h of None \<Rightarrow> False | Some b \<Rightarrow> b \<le> a))"

text \<open>
  \<^verbatim>\<open>temps.ge(th, axis=0)\<close>: the Series \<open>th\<close> is matched to the rows; table and Series are
  aligned on the union of their indexes.
\<close>

definition frame_ge :: "frame \<Rightarrow> column \<Rightarrow> bool table" where
  "frame_ge temps th =
     (let n = max (nrows temps) (length th)
      in \<lparr>nrows = n,
          cols = map (\<lambda>(name, c). (name, map (\<lambda>i. cell_ge (nth_cell c i) (nth_cell th i)) [0..<n]))
                   (cols temps)\<rparr>)"

text \<open>\<^verbatim>\<open>exceed.sum(axis=1)\<close>: the number of true cells of each row.\<close>

definition sum_axis1 :: "bool table \<Rightarrow> nat list" where
  "sum_axis1 exceed =
     map (\<lambda>i. length (filter (\<lambda>(name, c). c ! i) (cols exceed))) [0..<nrows exceed]"

text \<open>
  \<^verbatim>\<open>pd.DataFrame({"FID": FID, "HeatwaveDays": counts})\<close>: the two Series are aligned on the
  union of their indexes.
\<close>

definition heatwave_frame :: "column \<Rightarrow> nat list \<Rightarrow> frame" where
  "heatwave_frame FID counts =
     (let n = max (length FID) (length counts)
      in \<lparr>nrows = n,
          cols = [(''FID'', reindex_col n FID),
                  (''HeatwaveDays'', reindex_col n (map (\<lambda>k. Some (real k)) counts))]\<rparr>)"

text \<open>
  The body of the innermost loop, for one leaf table. When the renaming leaves two columns
  called \<open>FID\<close>, \<^verbatim>\<open>data['FID']\<close> is a table and the \<^verbatim>\<open>DataFrame\<close> constructor rejects it.
\<close>

text \<open>
  The dtypes of the output table: the counts are \<^verbatim>\<open>int64\<close>; \<open>FID\<close> keeps the dtype it has in
  the leaf file unless the constructor fills it with NaN.
\<close>

definition heatwave_int64 :: "string list \<Rightarrow> frame \<Rightarrow> frame \<Rightarrow> string list" where
  "heatwave_int64 data_int64 data0 out =
     (case getitem (rename_unnamed data0) ''FID'' of
        Inl e \<Rightarrow> []
      | Inr FID \<Rightarrow>
          if ''FID'' \<in> set (map (\<lambda>k. if k = ''Unnamed: 0'' then ''FID'' else k) data_int64)
             \<and> nrows out \<le> length FID
          then [''FID''] else [])
     @ [''HeatwaveDays'']"

definition heatwave_temps :: "frame \<Rightarrow> frame" where
  "heatwave_temps data0 = drop_column ''FID'' (rename_unnamed data0)"

definition heatwave_counts :: "frame \<Rightarrow> column \<Rightarrow> nat list" where
  "heatwave_counts temps th = sum_axis1 (frame_ge temps th)"

definition heatwave_leaf :: "frame \<Rightarrow> frame \<Rightarrow> error + frame" where
  "heatwave_leaf threshold data0 =
     (let data = rename_unnamed data0
      in (case getitem data ''FID'' of
            Inl e \<Rightarrow> Inl e
          | Inr FID \<Rightarrow>
              let temps = drop_column ''FID'' data
              in (case getitem threshold ''Percent975'' of
                    Inl e \<Rightarrow> Inl e
                  | Inr th \<Rightarrow>
                      let counts = heatwave_counts temps th
                      in if 1 < length (filter (\<lambda>k. k = ''FID'') (columns data))
                         then Inl (ValueError ''Data must be 1-dimensional'')
                         else Inr (heatwave_frame FID counts))))"

fun heatwave_files ::
  "frame \<Rightarrow> string \<Rightarrow> string \<Rightarrow> string \<Rightarrow> string \<Rightarrow> string list \<Rightarrow> fs \<Rightarrow> error option \<times> fs" where
  "heatwave_files threshold output_dir scenario model model_path [] fs = (None, fs)"
| "heatwave_files threshold output_dir scenario model model_path (fname # rest) fs =
     (let year = year_of_filename fname
      in (case read_csv fs (path_join model_path fname) of
            Inl e \<Rightarrow> (Some e, fs)
          | Inr data \<Rightarrow>
              (case heatwave_leaf threshold data of
                 Inl e \<Rightarrow> (Some e, fs)
               | Inr out \<Rightarrow>
                   let outname = path_join output_dir (scenario @ ''_'' @ model @ ''_'' @ year @ ''.csv'');
                       out_int64 = heatwave_int64 (int64_columns fs (path_join model_path fname)) data out
                   in heatwave_files threshold output_dir scenario model model_path rest
                        (to_csv_dtypes out out_int64 outname fs))))"

fun heatwave_models ::
  "frame \<Rightarrow> string \<Rightarrow> string \<Rightarrow> string \<Rightarrow> string list \<Rightarrow> fs \<Rightarrow> error option \<times> fs" where
  "heatwave_models threshold output_dir scenario scen_path [] fs = (None, fs)"
| "heatwave_models threshold output_dir scenario scen_path (model # rest) fs =
     (let model_path = path_join scen_path model
      in (case listdir fs model_path of
            Inl e \<Rightarrow> (Some e, fs)
          | Inr fnames \<Rightarrow>
              (case heatwave_files threshold output_dir scenario model model_path fnames fs of
                 (Some e, fs') \<Rightarrow> (Some e, fs')
               | (None, fs') \<Rightarrow> heatwave_models threshold output_dir scenario scen_path rest fs')))"

fun heatwave_scenarios ::
  "frame \<Rightarrow> string \<Rightarrow> string \<Rightarrow> string list \<Rightarrow> fs \<Rightarrow> error option \<times> fs" where
  "heatwave_scenarios threshold output_dir future_dir [] fs = (None, fs)"
| "heatwave_scenarios threshold output_dir future_dir (scenario # rest) fs =
     (let scen_path = path_join future_dir scenario
      in (case listdir fs scen_path of
            Inl e \<Rightarrow> (Some e, fs)
          | Inr models \<Rightarrow>
              (case heatwave_models threshold output_dir scenario scen_path models fs of
                 (Some e, fs') \<Rightarrow> (Some e, fs')
               | (None, fs') \<Rightarrow> heatwave_scenarios threshold output_dir future_dir rest fs')))"

definition count_heatwave_days :: "string \<Rightarrow> string \<Rightarrow> string \<Rightarrow> fs \<Rightarrow> error option \<times> fs" where
  "count_heatwave_days future_dir threshold_file output_dir fs =
     (case read_csv fs threshold_file of
        Inl e \<Rightarrow> (Some e, fs)
      | Inr threshold \<Rightarrow>
          (case listdir fs future_dir of
             Inl e \<Rightarrow> (Some e, fs)
           | Inr scenarios \<Rightarrow> heatwave_scenarios threshold output_dir future_dir scenarios fs))"

text \<open>
  What a run of the heatwave stage may do to the file system: every path keeps its content
  or holds the output table of the loop body for some leaf table.
\<close>

definition heatwave_written :: "frame \<Rightarrow> fs \<Rightarrow> fs \<Rightarrow> bool" where
  "heatwave_written threshold fs fs' =
     (\<forall>p. fs' p = fs p
          \<or> (\<exists>data out ints. heatwave_leaf threshold data = Inr out
                \<and> fs' p = Some (File out ints)))"

section \<open>Stage 3: excess deaths\<close>

text \<open>
  \<open>ER_int64\<close> and \<open>D_int64\<close> are the \<^verbatim>\<open>int64\<close> columns of the two tables; \<open>df_out\<close> is the output
  frame with its \<^verbatim>\<open>int64\<close> columns.
\<close>

fun excess_deaths_loop ::
  "string list \<Rightarrow> frame \<Rightarrow> string list \<Rightarrow> frame \<Rightarrow> string list \<Rightarrow> frame \<times> string list
     \<Rightarrow> error + frame \<times> string list" where
  "excess_deaths_loop ER_int64 ER D_int64 D [] df_out = Inr df_out"
| "excess_deaths_loop ER_int64 ER D_int64 D (col # rest) df_out =
     (let year = year_of_column col
      in (case getitem ER col of
            Inl e \<Rightarrow> Inl e
          | Inr er \<Rightarrow>
              (case getitem D (''Deaths-'' @ year) of
                 Inl e \<Rightarrow> Inl e
               | Inr d \<Rightarrow>
                   excess_deaths_loop ER_int64 ER D_int64 D rest
                     (setitem_typed df_out (''ED_'' @ year)
                        (series_mul_typed (col \<in> set ER_int64, er)
                           (''Deaths-'' @ year \<in> set D_int64, d))))))"

text \<open>\<^verbatim>\<open>ER.columns[1:]\<close> is every column but the first, whatever its name.\<close>

definition excess_deaths_table ::
  "string list \<Rightarrow> frame \<Rightarrow> string list \<Rightarrow> frame \<Rightarrow> error + frame \<times> string list" where
  "excess_deaths_table ER_int64 ER D_int64 D =
     (case getitem ER ''FID'' of
        Inl e \<Rightarrow> Inl e
      | Inr fid \<Rightarrow>
          excess_deaths_loop ER_int64 ER D_int64 D (tl (columns ER))
            (setitem_typed (empty_frame, []) ''FID'' (''FID'' \<in> set ER_int64, fid)))"

definition calculate_excess_deaths ::
  "string \<Rightarrow> string \<Rightarrow> string \<Rightarrow> fs \<Rightarrow> error option \<times> fs" where
  "calculate_excess_deaths er_file mortality_file output_file fs =
     (case read_csv fs er_file of
        Inl e \<Rightarrow> (Some e, fs)
      | Inr ER \<Rightarrow>
          (case read_csv fs mortality_file of
             Inl e \<Rightarrow> (Some e, fs)
           | Inr D \<Rightarrow>
               (case excess_deaths_table (int64_columns fs er_file) ER
                       (int64_columns fs mortality_file) D of
                  Inl e \<Rightarrow> (Some e, fs)
                | Inr df_out \<Rightarrow>
                    (None, to_csv_dtypes (fst df_out) (snd df_out) output_file fs))))"

section \<open>Stage 4: early warning benefits\<close>

text \<open>
  \<^verbatim>\<open>(p65 * hw) * 5/1e6 + (pu65 * hw) * 0.0127/1e6\<close>, in Python's order of evaluation: each
  product is multiplied by the rate and then divided by \<open>1e6\<close>. The factor \<open>5\<close> is an integer,
  so that an \<^verbatim>\<open>int64\<close> product stays \<^verbatim>\<open>int64\<close> when it is multiplied by it; the division and the
  factor \<open>0.0127\<close> give \<^verbatim>\<open>float64\<close>.
\<close>

definition benefit_series ::
  "bool \<Rightarrow> column \<Rightarrow> bool \<Rightarrow> column \<Rightarrow> bool \<Rightarrow> column \<Rightarrow> column" where
  "benefit_series p65_int64 p65 pu65_int64 pu65 hw_int64 hw =
     series_binop (+)
       (series_scalar (\<lambda>x. x / 1000000)
          (series_scalar (\<lambda>x. times_dtype (mul_int64 p65_int64 p65 hw_int64 hw) x 5)
             (series_mul p65_int64 p65 hw_int64 hw)))
       (series_scalar (\<lambda>x. x / 1000000)
          (series_scalar (\<lambda>x. x * 0.0127) (series_mul pu65_int64 pu65 hw_int64 hw)))"

fun benefits_loop ::
  "string list \<Rightarrow> frame \<Rightarrow> string list \<Rightarrow> frame \<Rightarrow> string list \<Rightarrow> frame \<Rightarrow> string list
     \<Rightarrow> frame \<times> string list \<Rightarrow> error + frame \<times> string list" where
  "benefits_loop df_hw_int64 df_hw df65_int64 df65 df_u65_int64 df_u65 [] df_out = Inr df_out"
| "benefits_loop df_hw_int64 df_hw df65_int64 df65 df_u65_int64 df_u65 (col # rest) df_out =
     (let year = year_of_column col
      in (case getitem df65 (''Pop65-'' @ year) of
            Inl e \<Rightarrow> Inl e
          | Inr p65 \<Rightarrow>
              (case getitem df_hw col of
                 Inl e \<Rightarrow> Inl e
               | Inr hw \<Rightarrow>
                   (case getitem df_u65 (''PopU65-'' @ year) of
                      Inl e \<Rightarrow> Inl e
                    | Inr pu65 \<Rightarrow>
                        let benefit =
                              benefit_series (''Pop65-'' @ year \<in> set df65_int64) p65
                                (''PopU65-'' @ year \<in> set df_u65_int64) pu65
                                (col \<in> set df_hw_int64) hw
                        in benefits_loop df_hw_int64 df_hw df65_int64 df65 df_u65_int64 df_u65 rest
                             (setitem_typed df_out (''Benefit_'' @ year) (False, benefit))))))"

definition benefits_table ::
  "string list \<Rightarrow> frame \<Rightarrow> string list \<Rightarrow> frame \<Rightarrow> string list \<Rightarrow> frame
     \<Rightarrow> error + frame \<times> string list" where
  "benefits_table df_hw_int64 df_hw df65_int64 df65 df_u65_int64 df_u65 =
     (case getitem df_hw ''FID'' of
        Inl e \<Rightarrow> Inl e
      | Inr fid \<Rightarrow>
          benefits_loop df_hw_int64 df_hw df65_int64 df65 df_u65_int64 df_u65 (tl (columns df_hw))
            (setitem_typed (empty_frame, []) ''FID'' (''FID'' \<in> set df_hw_int64, fid)))"

definition calculate_early_warning_benefits ::
  "string \<Rightarrow> string \<Rightarrow> string \<Rightarrow> string \<Rightarrow> fs \<Rightarrow> error option \<times> fs" where
  "calculate_early_warning_benefits heatwave_file pop65_file pop_u65_file output_file fs =
     (case read_csv fs heatwave_file of
        Inl e \<Rightarrow> (Some e, fs)
      | Inr df_hw \<Rightarrow>
          (case read_csv fs pop65_file of
             Inl e \<Rightarrow> (Some e, fs)
           | Inr df65 \<Rightarrow>
               (case read_csv fs pop_u65_file of
                  Inl e \<Rightarrow> (Some e, fs)
                | Inr df_u65 \<Rightarrow>
                    (case benefits_table (int64_columns fs heatwave_file) df_hw
                            (int64_columns fs pop65_file) df65
                            (int64_columns fs pop_u65_file) df_u65 of
                       Inl e \<Rightarrow> (Some e, fs)
                     | Inr df_out \<Rightarrow>
                         (None, to_csv_dtypes (fst df_out) (snd df_out) output_file fs)))))"

section \<open>Tables as \<^verbatim>\<open>read_csv\<close> returns them\<close>

text \<open>
  \<^verbatim>\<open>read_csv\<close> makes the column names of a table pairwise distinct, and every column has one
  cell per row.
\<close>

definition frame_ok :: "frame \<Rightarrow> bool" where
  "frame_ok df = (distinct (columns df) \<and> list_all (\<lambda>(name, c). length c = nrows df) (cols df))"

text \<open>
  Every cell of a column that \<^verbatim>\<open>read_csv\<close> types \<^verbatim>\<open>int64\<close> is an integer of the 64-bit range,
  and none is missing.
\<close>

definition in_int64 :: "real \<Rightarrow> bool" where
  "in_int64 x = (- (2 ^ 63) \<le> x \<and> x < 2 ^ 63)"

definition int64_cell :: "cell \<Rightarrow> bool" where
  "int64_cell x = (case x of None \<Rightarrow> False | Some r \<Rightarrow> r = of_int \<lfloor>r\<rfloor> \<and> in_int64 r)"

definition dtypes_ok :: "frame \<Rightarrow> string list \<Rightarrow> bool" where
  "dtypes_ok df ints =
     list_all (\<lambda>(name, c). name \<in> set ints \<longrightarrow> list_all int64_cell c) (cols df)"

text \<open>
  The \<^verbatim>\<open>int64\<close> arithmetic on two cells does not overflow: the product of the two numbers
  and the factor \<open>k\<close> lies in the 64-bit range. For an operand that is not \<^verbatim>\<open>int64\<close> there is
  nothing to ask.
\<close>

definition fits_int64 :: "bool \<Rightarrow> real \<Rightarrow> cell \<Rightarrow> cell \<Rightarrow> bool" where
  "fits_int64 both_int64 k a b =
     (\<not> both_int64
      \<or> (case a of None \<Rightarrow> True
          | Some x \<Rightarrow> (case b of None \<Rightarrow> True | Some y \<Rightarrow> in_int64 (x * y * k))))"

section \<open>Reference definitions and example inputs\<close>

text \<open>
  The reference quantile with the linear-interpolation convention: for the sorted sample
  \<open>s\<close> of size \<open>n\<close> and the position \<open>h = (n - 1) * q\<close>, the value is the convex combination
  of \<open>s\<close> at \<open>\<lfloor>h\<rfloor>\<close> and at \<open>\<lceil>h\<rceil>\<close> with weight \<open>h - \<lfloor>h\<rfloor>\<close>. This definition is written
  from the specification, not from the code.
\<close>

definition reference_quantile :: "real \<Rightarrow> real list \<Rightarrow> cell" where
  "reference_quantile q xs =
     (if xs = [] then None
      else let s = sort xs;
               h = (real (length xs) - 1) * q;
               g = h - of_int \<lfloor>h\<rfloor>
           in Some ((1 - g) * s ! nat \<lfloor>h\<rfloor> + g * s ! nat \<lceil>h\<rceil>))"

text \<open>A baseline directory with two CSV files and a file that is not a CSV file.\<close>

definition fs_baseline :: fs where
  "fs_baseline =
     [''data/baseline/'' \<mapsto> Dir [''a.csv'', ''notes.txt'', ''b.csv''],
      ''data/baseline/a.csv'' \<mapsto>
        File \<lparr>nrows = 2, cols = [(''d1'', [Some 1, Some 10]), (''d2'', [Some 3, Some 20])]\<rparr>
          [''d1'', ''d2''],
      ''data/baseline/b.csv'' \<mapsto>
        File \<lparr>nrows = 2, cols = [(''d3'', [Some 2, Some 40]), (''d4'', [Some 5, Some 30]),
                               (''d5'', [Some 4, None])]\<rparr>
          [''d3'', ''d4'']]"

text \<open>A threshold table and leaf tables of the future-climate tree.\<close>

definition threshold_example :: frame where
  "threshold_example = \<lparr>nrows = 2, cols = [(''Percent975'', [Some 30, Some 31])]\<rparr>"

definition leaf_example :: frame where
  "leaf_example =
     \<lparr>nrows = 2, cols = [(''Unnamed: 0'', [Some 7, Some 8]), (''d1'', [Some 30, Some 30]),
                          (''d2'', [Some 29, Some 32]), (''d3'', [Some 31, None])]\<rparr>"

definition leaf_short :: frame where
  "leaf_short = \<lparr>nrows = 1, cols = [(''Unnamed: 0'', [Some 7]), (''d1'', [Some 30])]\<rparr>"

text \<open>Inputs of the excess-death stage: the example of the specification.\<close>

definition er_example :: frame where
  "er_example = \<lparr>nrows = 2, cols = [(''FID'', [Some 0, Some 1]), (''ER_2050'', [Some 2, Some 0])]\<rparr>"

definition mortality_example :: frame where
  "mortality_example =
     \<lparr>nrows = 2, cols = [(''FID'', [Some 0, Some 1]), (''Deaths-2050'', [Some 10, Some 5])]\<rparr>"

definition fs_excess :: fs where
  "fs_excess =
     [''data/example/ER.csv'' \<mapsto> File er_example [''FID'', ''ER_2050''],
      ''data/example/mortality.csv'' \<mapsto> File mortality_example [''FID'', ''Deaths-2050'']]"

text \<open>Inputs of the benefit stage: the example of the specification, and a heatwave table
  with two columns for the same year.\<close>

definition hw_example :: frame where
  "hw_example = \<lparr>nrows = 1, cols = [(''FID'', [Some 7]), (''HeatwaveDays_2050'', [Some 10])]\<rparr>"

definition pop65_example :: frame where
  "pop65_example = \<lparr>nrows = 1, cols = [(''FID'', [Some 7]), (''Pop65-2050'', [Some 1000000])]\<rparr>"

definition pop_u65_example :: frame where
  "pop_u65_example = \<lparr>nrows = 1, cols = [(''FID'', [Some 7]), (''PopU65-2050'', [Some 1000000])]\<rparr>"

definition fs_benefits :: fs where
  "fs_benefits =
     [''data/example/heatwave_days.csv'' \<mapsto> File hw_example [''FID'', ''HeatwaveDays_2050''],
      ''data/example/pop65.csv'' \<mapsto> File pop65_example [''FID'', ''Pop65-2050''],
      ''data/example/popu65.csv'' \<mapsto> File pop_u65_example [''FID'', ''PopU65-2050'']]"

definition hw_two_scenarios :: frame where
  "hw_two_scenarios =
     \<lparr>nrows = 1, cols = [(''FID'', [Some 7]), (''rcp45_modelA_2050'', [Some 10]),
                          (''rcp85_modelA_2050'', [Some 20])]\<rparr>"

definition fs_benefits_two :: fs where
  "fs_benefits_two =
     [''data/example/heatwave_days.csv'' \<mapsto>
        File hw_two_scenarios [''FID'', ''rcp45_modelA_2050'', ''rcp85_modelA_2050''],
      ''data/example/pop65.csv'' \<mapsto> File pop65_example [''FID'', ''Pop65-2050''],
      ''data/example/popu65.csv'' \<mapsto> File pop_u65_example [''FID'', ''PopU65-2050'']]"

text \<open>The benefit of one grid cell as the specification writes it; NaN when a cell is NaN.\<close>

definition benefit_formula :: "cell \<Rightarrow> cell \<Rightarrow> cell \<Rightarrow> cell" where
  "benefit_formula p65 pu65 hw =
     (case p65 of None \<Rightarrow> None | Some p \<Rightarrow>
        (case pu65 of None \<Rightarrow> None | Some u \<Rightarrow>
           (case hw of None \<Rightarrow> None | Some h \<Rightarrow>
              Some (p * h * (5 / 1000000) + u * h * (0.0127 / 1000000)))))"

text \<open>
  Integer columns whose products leave the 64-bit range: \<open>2 ^ 62 * 4\<close> in the excess-death
  stage, \<open>4 * 10 ^ 18 * 3\<close> in the benefit stage.
\<close>

definition er_large :: frame where
  "er_large = \<lparr>nrows = 1, cols = [(''FID'', [Some 0]), (''ER_2050'', [Some 4611686018427387904])]\<rparr>"

definition mortality_four :: frame where
  "mortality_four = \<lparr>nrows = 1, cols = [(''FID'', [Some 0]), (''Deaths-2050'', [Some 4])]\<rparr>"

definition fs_large :: fs where
  "fs_large =
     [''data/example/ER.csv'' \<mapsto> File er_large [''FID'', ''ER_2050''],
      ''data/example/mortality.csv'' \<mapsto> File mortality_four [''FID'', ''Deaths-2050'']]"

definition pop65_large :: frame where
  "pop65_large =
     \<lparr>nrows = 1, cols = [(''FID'', [Some 7]), (''Pop65-2050'', [Some 4000000000000000000])]\<rparr>"

definition pop_u65_zero :: frame where
  "pop_u65_zero = \<lparr>nrows = 1, cols = [(''FID'', [Some 7]), (''PopU65-2050'', [Some 0])]\<rparr>"

definition hw_three :: frame where
  "hw_three = \<lparr>nrows = 1, cols = [(''FID'', [Some 7]), (''HeatwaveDays_2050'', [Some 3])]\<rparr>"

text \<open>Tables with a year that the mortality table or a population table lacks.\<close>

definition mortality_one_row :: frame where
  "mortality_one_row = \<lparr>nrows = 1, cols = [(''FID'', [Some 0]), (''Deaths-2050'', [Some 10])]\<rparr>"

definition er_2060 :: frame where
  "er_2060 = \<lparr>nrows = 1, cols = [(''FID'', [Some 0]), (''ER_2050'', [Some 2]), (''ER_2060'', [Some 3])]\<rparr>"

definition fs_missing :: fs where
  "fs_missing =
     [''data/example/ER.csv'' \<mapsto> File er_2060 [''FID'', ''ER_2050'', ''ER_2060''],
      ''data/example/mortality.csv'' \<mapsto> File mortality_one_row [''FID'', ''Deaths-2050''],
      ''data/example/heatwave_days.csv'' \<mapsto> File hw_example [''FID'', ''HeatwaveDays_2050''],
      ''data/example/pop65.csv'' \<mapsto> File pop65_example [''FID'', ''Pop65-2050''],
      ''data/example/popu65.csv'' \<mapsto> File pop65_example [''FID'', ''Pop65-2050'']]"

text \<open>A whole run: one baseline file, and one leaf file below scenario \<open>rcp85\<close> and model
  \<open>modelA\<close>.\<close>

definition fs_pipeline :: fs where
  "fs_pipeline =
     [''data/baseline/'' \<mapsto> Dir [''base.csv''],
      ''data/baseline/base.csv'' \<mapsto>
        File \<lparr>nrows = 1, cols = [(''d1'', [Some 30]), (''d2'', [Some 32])]\<rparr> [''d1'', ''d2''],
      ''data/future/'' \<mapsto> Dir [''rcp85''],
      ''data/future/rcp85'' \<mapsto> Dir [''modelA''],
      ''data/future/rcp85/modelA'' \<mapsto> Dir [''tas_2050.csv''],
      ''data/future/rcp85/modelA/tas_2050.csv'' \<mapsto> File leaf_short [''Unnamed: 0'', ''d1'']]"

section \<open>Year extraction\<close>

lemma split_str_nonempty: "split_str sep s \<noteq> []"
  by (induction s) auto

lemma split_str_no_sep: "sep \<notin> set s \<Longrightarrow> split_str sep s = [s]"
  by (induction s) auto

lemma last_split_str_append:
  "sep \<notin> set y \<Longrightarrow> last (split_str sep (pre @ sep # y)) = y"
proof (induction pre)
  case Nil
  then show ?case by (simp add: split_str_no_sep)
next
  case (Cons c pre)
  have ne: "split_str sep (pre @ sep # y) \<noteq> []" by (rule split_str_nonempty)
  have tl_ne: "tl (split_str sep (pre @ sep # y)) \<noteq> []" if "c \<noteq> sep"
  proof (induction pre)
    case Nil
    then show ?case by (simp add: split_str_nonempty)
  next
    case (Cons d pre)
    then show ?case by (simp add: split_str_nonempty)
  qed
  show ?case
  proof (cases "c = sep")
    case True
    with Cons ne show ?thesis by simp
  next
    case False
    with Cons tl_ne [OF False] ne show ?thesis
      by (simp add: last_tl)
  qed
qed

lemma py_slice_last_four:
  assumes "length y = 4" "length ext = 4"
  shows "py_slice (pre @ y @ ext) (- 8) (- 4) = y"
  using assms by (simp add: py_slice_def slice_index_def Let_def)

text \<open>
  C6, as amended. For a file name that ends in four characters \<open>y\<close> followed by an extension
  of four characters (a dot and three letters, as in \<^verbatim>\<open>.csv\<close>), the heatwave stage extracts
  \<open>y\<close>; for a column name, the excess-death and benefit stages extract what follows the last
  underscore.
\<close>

theorem year_extraction:
  "(length y = 4 \<and> length ext = 4 \<longrightarrow> year_of_filename (stem @ y @ ext) = y)
   \<and> (CHR ''_'' \<notin> set s \<longrightarrow> year_of_column (p @ ''_'' @ s) = s)"
  using last_split_str_append [of "CHR ''_''" s p]
  by (simp add: year_of_filename_def year_of_column_def py_slice_last_four)

theorem year_extraction_witness:
  "year_of_filename ''scenarioA_modelB_2075.csv'' = ''2075''
   \<and> year_of_column ''ER_rcp85_2100'' = ''2100''"
  using year_extraction [of "''2075''" "''.csv''" "''scenarioA_modelB_''" "''2100''" "''ER_rcp85''"]
  by simp

text \<open>
  With the five-character extension \<^verbatim>\<open>.json\<close> the four characters before the extension
  are not what the slice \<^verbatim>\<open>fname[-8:-4]\<close> returns.
\<close>

theorem year_of_filename_counterexample:
  "year_of_filename (''scenarioA_modelB_'' @ ''2075'' @ ''.json'') \<noteq> ''2075''"
  by (simp add: year_of_filename_def py_slice_def slice_index_def)

section \<open>Stage 1: the percentile\<close>

lemma lerp_convex: "lerp a b t = (1 - t) * a + t * b"
  by (simp add: lerp_def algebra_simps)

lemma quantile_linear_reference:
  assumes q: "0 \<le> q" "q \<le> 1"
  shows "quantile_linear q xs = reference_quantile q xs"
proof (cases "xs = []")
  case True
  then show ?thesis by (simp add: quantile_linear_def reference_quantile_def)
next
  case False
  define n where "n = length xs"
  define h where "h = real (n - 1) * q"
  from False have n: "0 < n" by (simp add: n_def)
  then have hn: "real (n - 1) = real n - 1" by (simp add: of_nat_diff)
  have h0: "0 \<le> h" using q by (simp add: h_def)
  have h1: "h \<le> real (n - 1)" using q by (simp add: h_def mult_left_le)
  have fl: "real (nat \<lfloor>h\<rfloor>) = of_int \<lfloor>h\<rfloor>" using h0 by simp
  have hi: "min (nat \<lfloor>h\<rfloor> + 1) (n - 1) = nat \<lceil>h\<rceil>" if "of_int \<lfloor>h\<rfloor> \<noteq> h"
  proof -
    from that have c: "\<lceil>h\<rceil> = \<lfloor>h\<rfloor> + 1" by (simp add: ceiling_altdef)
    from that h1 have "h < real (n - 1)"
      by (metis floor_of_nat of_int_of_nat_eq order_le_less)
    then have "\<lfloor>h\<rfloor> < int (n - 1)" by (simp add: floor_less_iff)
    then have "nat \<lfloor>h\<rfloor> + 1 \<le> n - 1" using h0 by linarith
    moreover have "nat \<lceil>h\<rceil> = nat \<lfloor>h\<rfloor> + 1" using c h0 by (simp add: nat_add_distrib)
    ultimately show ?thesis by simp
  qed
  have L: "quantile_linear q xs =
      Some (lerp (sort xs ! nat \<lfloor>h\<rfloor>) (sort xs ! min (nat \<lfloor>h\<rfloor> + 1) (n - 1)) (h - real (nat \<lfloor>h\<rfloor>)))"
    unfolding quantile_linear_def Let_def h_def n_def by (simp only: False if_False)
  have R: "reference_quantile q xs =
      Some ((1 - (h - of_int \<lfloor>h\<rfloor>)) * sort xs ! nat \<lfloor>h\<rfloor> + (h - of_int \<lfloor>h\<rfloor>) * sort xs ! nat \<lceil>h\<rceil>)"
    unfolding reference_quantile_def Let_def h_def n_def
    using hn [unfolded n_def] by (simp only: False if_False)
  show ?thesis
  proof (cases "of_int \<lfloor>h\<rfloor> = h")
    case True
    then have c: "\<lceil>h\<rceil> = \<lfloor>h\<rfloor>" by (metis ceiling_of_int)
    have g0: "h - real (nat \<lfloor>h\<rfloor>) = 0" using True fl by linarith
    have g1: "h - of_int \<lfloor>h\<rfloor> = 0" using True by linarith
    show ?thesis
      unfolding L R g0 g1 c by (simp add: lerp_convex)
  next
    case neq: False
    with fl hi [OF neq] show ?thesis
      unfolding L R by (simp add: lerp_convex)
  qed
qed

lemma nth_cell_reindex_col: "i < n \<Longrightarrow> nth_cell (reindex_col n c) i = nth_cell c i"
  by (simp add: reindex_col_def nth_cell_def)

lemma length_reindex_col: "length (reindex_col n c) = n"
  by (simp add: reindex_col_def)

lemma row_values_reindex: "i < n \<Longrightarrow> row_values (reindex n df) i = row_values df i"
  by (simp add: row_values_def reindex_def nth_cell_reindex_col case_prod_unfold comp_def)

lemma row_values_side_by_side:
  "row_values \<lparr>nrows = m, cols = concat (map (\<lambda>df. cols (reindex n df)) dfs)\<rparr> i
     = concat (map (\<lambda>df. row_values (reindex n df) i) dfs)"
  by (induction dfs) (simp_all add: row_values_def)

lemma row_values_concat:
  assumes "concat_axis1 dfs = Inr wide" "i < nrows wide"
  shows "row_values wide i = concat (map (\<lambda>df. row_values df i) dfs)"
proof -
  define n where "n = foldr max (map nrows dfs) 0"
  from assms(1) have w: "wide = \<lparr>nrows = n, cols = concat (map (\<lambda>df. cols (reindex n df)) dfs)\<rparr>"
    by (auto simp: concat_axis1_def Let_def n_def split: if_splits)
  with assms(2) have i: "i < n" by simp
  have "row_values wide i = concat (map (\<lambda>df. row_values (reindex n df) i) dfs)"
    unfolding w by (rule row_values_side_by_side)
  with i show ?thesis by (simp add: row_values_reindex)
qed

lemma nrows_concat_axis1:
  "concat_axis1 dfs = Inr wide \<Longrightarrow> nrows wide = foldr max (map nrows dfs) 0"
  by (auto simp: concat_axis1_def Let_def split: if_splits)

text \<open>
  C3. Whenever the baseline stage computes its Series, every CSV file of the directory was
  read, the Series has one entry per row of the widest file, and entry \<open>i\<close> is the reference
  quantile (linear interpolation) at level 0.975 of the values that the files hold in row
  \<open>i\<close>, taken side by side; no other row enters it.
\<close>

theorem baseline_percentile_reference:
  assumes "baseline_percent975 fs baseline_dir = Inr percent975"
  shows "\<exists>es dfs. listdir fs baseline_dir = Inr es
           \<and> read_all fs (map (path_join baseline_dir) (filter (\<lambda>f. endswith f ''.csv'') es)) = Inr dfs
           \<and> length (svals percent975) = foldr max (map nrows dfs) 0
           \<and> (\<forall>i<length (svals percent975).
                 svals percent975 ! i
                   = reference_quantile 0.975 (concat (map (\<lambda>df. row_values df i) dfs)))"
proof -
  from assms obtain es dfs wide where
    es: "listdir fs baseline_dir = Inr es" and
    dfs: "read_all fs (map (path_join baseline_dir) (filter (\<lambda>f. endswith f ''.csv'') es)) = Inr dfs" and
    wide: "concat_axis1 dfs = Inr wide" and
    p: "percent975 = quantile_axis1 0.975 ''0.975'' wide"
    by (auto simp: baseline_percent975_def Let_def split: sum.splits)
  have len: "length (svals percent975) = nrows wide"
    by (simp add: p quantile_axis1_def)
  have "svals percent975 ! i = reference_quantile 0.975 (concat (map (\<lambda>df. row_values df i) dfs))"
    if "i < length (svals percent975)" for i
  proof -
    from that len have i: "i < nrows wide" by simp
    then have "svals percent975 ! i = quantile_linear 0.975 (row_values wide i)"
      by (simp add: p quantile_axis1_def)
    also have "\<dots> = reference_quantile 0.975 (row_values wide i)"
      by (rule quantile_linear_reference) simp_all
    finally show ?thesis by (simp add: row_values_concat [OF wide i])
  qed
  with es dfs len nrows_concat_axis1 [OF wide] show ?thesis by auto
qed

lemma baseline_example_series:
  "baseline_percent975 fs_baseline ''data/baseline/''
     = Inr \<lparr>sname = ''0.975'', svals = [Some 4.9, Some 39.25]\<rparr>"
  by code_simp

theorem baseline_percentile_reference_witness:
  "baseline_percent975 fs_baseline ''data/baseline/'' =
     Inr \<lparr>sname = ''0.975'', svals = [Some 4.9, Some 39.25]\<rparr>
   \<and> reference_quantile 0.975 [1, 3, 2, 5, 4] = Some 4.9
   \<and> reference_quantile 0.975 [10, 20, 40, 30] = Some 39.25"
proof -
  have r: "reference_quantile 0.975 [1, 3, 2, 5, 4] = Some 4.9
      \<and> reference_quantile 0.975 [10, 20, 40, 30] = Some 39.25"
    by (simp add: reference_quantile_def Let_def)
  from baseline_percentile_reference [OF baseline_example_series] baseline_example_series r show ?thesis
    by blast
qed

text \<open>
  C8. On an empty baseline directory the stage raises the \<^verbatim>\<open>ValueError\<close> of \<^verbatim>\<open>pd.concat\<close>
  and leaves the file system as it was: no output file is written.
\<close>

theorem baseline_empty_directory:
  assumes "fs baseline_dir = Some (Dir [])"
  shows "calculate_baseline_threshold baseline_dir output_file fs
           = (Some (ValueError ''No objects to concatenate''), fs)"
  using assms
  by (simp add: calculate_baseline_threshold_def baseline_percent975_def listdir_def
      concat_axis1_def)

theorem baseline_empty_directory_witness:
  "calculate_baseline_threshold ''data/baseline/'' ''outputs/baseline_percent975.csv''
     [''data/baseline/'' \<mapsto> Dir []]
   = (Some (ValueError ''No objects to concatenate''), [''data/baseline/'' \<mapsto> Dir []])"
  using baseline_empty_directory [of "[''data/baseline/'' \<mapsto> Dir []]" "''data/baseline/''"
      "''outputs/baseline_percent975.csv''"]
  by simp

section \<open>Stage 2: counting the days at or above the threshold\<close>

lemma length_heatwave_counts:
  "length (heatwave_counts temps th) = max (nrows temps) (length th)"
  by (simp add: heatwave_counts_def sum_axis1_def frame_ge_def Let_def)

lemma count_true_cells:
  "i < n \<Longrightarrow>
   length (filter (\<lambda>(name, c). c ! i) (map (\<lambda>(name, c). (name, map (P c) [0..<n])) cs))
     = length (filter (\<lambda>(name, c). P c i) cs)"
  by (induction cs) auto

lemma nth_heatwave_counts:
  assumes "i < max (nrows temps) (length th)"
  shows "heatwave_counts temps th ! i
           = length (filter (\<lambda>(name, c). cell_ge (nth_cell c i) (nth_cell th i)) (cols temps))"
  using assms count_true_cells [OF assms, of "\<lambda>c i. cell_ge (nth_cell c i) (nth_cell th i)" "cols temps"]
  by (simp add: heatwave_counts_def sum_axis1_def frame_ge_def Let_def)

lemma heatwave_counts_le:
  assumes "i < length (heatwave_counts temps th)"
  shows "heatwave_counts temps th ! i \<le> length (cols temps)"
  using assms by (simp add: length_heatwave_counts nth_heatwave_counts)

lemma heatwave_leaf_InrD:
  assumes "heatwave_leaf threshold data = Inr out"
  shows "\<exists>FID th. getitem (rename_unnamed data) ''FID'' = Inr FID
           \<and> getitem threshold ''Percent975'' = Inr th
           \<and> out = heatwave_frame FID (heatwave_counts (heatwave_temps data) th)"
  using assms
  by (auto simp: heatwave_leaf_def heatwave_temps_def Let_def split: sum.splits if_splits)

lemma getitem_heatwave_frame_days:
  "getitem (heatwave_frame FID counts) ''HeatwaveDays''
     = Inr (reindex_col (max (length FID) (length counts)) (map (\<lambda>k. Some (real k)) counts))"
  by (simp add: heatwave_frame_def getitem_def Let_def)

lemma nrows_heatwave_temps: "nrows (heatwave_temps data) = nrows data"
  by (simp add: heatwave_temps_def drop_column_def rename_unnamed_def)


lemma length_getitem:
  assumes "list_all (\<lambda>(name, c). length c = n) cs" "map_of cs name = Some c"
  shows "length c = n"
  using assms by (auto simp: list_all_iff dest!: map_of_SomeD)

lemma reindex_col_same: "length c = n \<Longrightarrow> reindex_col n c = c"
  by (auto simp: reindex_col_def nth_cell_def intro!: nth_equalityI)

lemma nth_reindex_col: "i < n \<Longrightarrow> reindex_col n c ! i = nth_cell c i"
  by (simp add: reindex_col_def)

lemma length_FID:
  assumes "frame_ok data" "getitem (rename_unnamed data) ''FID'' = Inr FID"
  shows "length FID = nrows data"
proof -
  from assms(1) have "list_all (\<lambda>(name, c). length c = nrows data) (cols (rename_unnamed data))"
    by (auto simp: frame_ok_def rename_unnamed_def list_all_iff)
  moreover from assms(2) have "map_of (cols (rename_unnamed data)) ''FID'' = Some FID"
    by (simp add: getitem_def split: option.splits)
  ultimately show ?thesis by (rule length_getitem)
qed

lemma leaf_example_val:
  "heatwave_leaf threshold_example leaf_example
     = Inr \<lparr>nrows = 2, cols = [(''FID'', [Some 7, Some 8]), (''HeatwaveDays'', [Some 2, Some 1])]\<rparr>"
  by code_simp

lemma leaf_example_ok: "frame_ok leaf_example"
  by code_simp

text \<open>
  C2. The comparison is inclusive: a temperature equal to the threshold meets it and a
  temperature below it does not. For every leaf table that the heatwave stage turns into an
  output table, the \<open>HeatwaveDays\<close> entry of row \<open>i\<close> is the number of temperature columns whose
  cell in row \<open>i\<close> is at or above the threshold found at position \<open>i\<close> of the \<open>Percent975\<close>
  column (a row without a threshold compares against NaN).
\<close>

theorem heatwave_count_inclusive:
  "cell_ge (Some t) (Some t)
   \<and> (t < h \<longrightarrow> \<not> cell_ge (Some t) (Some h))
   \<and> (heatwave_leaf threshold data = Inr out \<longrightarrow>
        (\<exists>th days. getitem threshold ''Percent975'' = Inr th
           \<and> getitem out ''HeatwaveDays'' = Inr days
           \<and> (\<forall>i<nrows data.
                 days ! i = Some (real (length (filter
                   (\<lambda>(name, c). cell_ge (nth_cell c i) (nth_cell th i))
                   (cols (heatwave_temps data))))))))"
proof (intro conjI impI)
  show "cell_ge (Some t) (Some t)" by (simp add: cell_ge_def)
  show "\<not> cell_ge (Some t) (Some h)" if "t < h" using that by (simp add: cell_ge_def)
next
  assume ok: "heatwave_leaf threshold data = Inr out"
  then obtain FID th where
    th: "getitem threshold ''Percent975'' = Inr th" and
    out: "out = heatwave_frame FID (heatwave_counts (heatwave_temps data) th)"
    using heatwave_leaf_InrD by blast
  define counts where "counts = heatwave_counts (heatwave_temps data) th"
  define days where
    "days = reindex_col (max (length FID) (length counts)) (map (\<lambda>k. Some (real k)) counts)"
  have d: "getitem out ''HeatwaveDays'' = Inr days"
    by (simp add: out days_def counts_def getitem_heatwave_frame_days)
  have len: "length counts = max (nrows data) (length th)"
    by (simp add: counts_def length_heatwave_counts nrows_heatwave_temps)
  have "days ! i = Some (real (length (filter
            (\<lambda>(name, c). cell_ge (nth_cell c i) (nth_cell th i)) (cols (heatwave_temps data)))))"
    if i: "i < nrows data" for i
  proof -
    from i len have ic: "i < length counts" by simp
    then have "days ! i = Some (real (counts ! i))"
      by (simp add: days_def nth_reindex_col nth_cell_def)
    moreover have "counts ! i = length (filter
        (\<lambda>(name, c). cell_ge (nth_cell c i) (nth_cell th i)) (cols (heatwave_temps data)))"
      unfolding counts_def using i
      by (intro nth_heatwave_counts) (simp add: nrows_heatwave_temps)
    ultimately show ?thesis by simp
  qed
  with th d show "\<exists>th days. getitem threshold ''Percent975'' = Inr th
           \<and> getitem out ''HeatwaveDays'' = Inr days
           \<and> (\<forall>i<nrows data.
                 days ! i = Some (real (length (filter
                   (\<lambda>(name, c). cell_ge (nth_cell c i) (nth_cell th i))
                   (cols (heatwave_temps data))))))"
    by blast
qed

theorem heatwave_count_inclusive_witness:
  "(29::real) < 30 \<and> cell_ge (Some 29) (Some 29) \<and> \<not> cell_ge (Some 29) (Some 30)
   \<and> heatwave_leaf threshold_example leaf_example
       = Inr \<lparr>nrows = 2, cols = [(''FID'', [Some 7, Some 8]), (''HeatwaveDays'', [Some 2, Some 1])]\<rparr>"
  using heatwave_count_inclusive [where t = 29 and h = 30 and threshold = threshold_example
      and data = leaf_example] leaf_example_val
  by simp

text \<open>
  C10. For every leaf table read from a CSV file that the heatwave stage turns into an output
  table, every entry of the \<open>HeatwaveDays\<close> column is a natural number that is at most the
  number of temperature columns, i.e. of columns other than \<open>FID\<close>.
\<close>

theorem heatwave_count_bounds:
  assumes "heatwave_leaf threshold data = Inr out" "frame_ok data"
  shows "\<exists>days. getitem out ''HeatwaveDays'' = Inr days \<and> length days = nrows out
           \<and> (\<forall>i<length days. \<exists>n. days ! i = Some (real n)
                  \<and> n \<le> length (filter (\<lambda>k. k \<noteq> ''FID'') (columns (rename_unnamed data))))"
proof -
  from assms(1) obtain FID th where
    fid: "getitem (rename_unnamed data) ''FID'' = Inr FID" and
    out: "out = heatwave_frame FID (heatwave_counts (heatwave_temps data) th)"
    using heatwave_leaf_InrD by blast
  define counts where "counts = heatwave_counts (heatwave_temps data) th"
  have lc: "length FID \<le> length counts"
    by (simp add: counts_def length_heatwave_counts nrows_heatwave_temps
        length_FID [OF assms(2) fid])
  define m where "m = max (length FID) (length counts)"
  define days where "days = reindex_col m (map (\<lambda>k. Some (real k)) counts)"
  have d: "getitem out ''HeatwaveDays'' = Inr days"
    by (simp add: out days_def m_def counts_def getitem_heatwave_frame_days)
  have l: "length days = nrows out"
    by (simp add: out days_def m_def counts_def heatwave_frame_def Let_def length_reindex_col)
  have ncols: "length (cols (heatwave_temps data))
      = length (filter (\<lambda>k. k \<noteq> ''FID'') (columns (rename_unnamed data)))"
    by (simp add: heatwave_temps_def drop_column_def columns_def filter_map comp_def
        case_prod_unfold)
  have "\<exists>n. days ! i = Some (real n)
          \<and> n \<le> length (filter (\<lambda>k. k \<noteq> ''FID'') (columns (rename_unnamed data)))"
    if i: "i < length days" for i
  proof (cases "i < length counts")
    case True
    with i have "days ! i = Some (real (counts ! i))"
      by (simp add: days_def length_reindex_col nth_reindex_col nth_cell_def)
    moreover from True have "counts ! i \<le> length (cols (heatwave_temps data))"
      unfolding counts_def by (rule heatwave_counts_le)
    ultimately show ?thesis using ncols by auto
  next
    case False
    with i have "i < m" by (simp add: days_def length_reindex_col)
    with False lc have "False" by (simp add: m_def)
    then show ?thesis ..
  qed
  with d l show ?thesis by blast
qed

theorem heatwave_count_bounds_witness:
  "heatwave_leaf threshold_example leaf_example
     = Inr \<lparr>nrows = 2, cols = [(''FID'', [Some 7, Some 8]), (''HeatwaveDays'', [Some 2, Some 1])]\<rparr>
   \<and> frame_ok leaf_example"
  using heatwave_count_bounds [OF leaf_example_val leaf_example_ok] leaf_example_val leaf_example_ok
  by blast

section \<open>Column assignment and the year loops\<close>

lemma map_of_upsert: "map_of (upsert name v cs) = (map_of cs)(name \<mapsto> v)"
  by (induction cs) (auto simp: fun_eq_iff)

lemma length_series_binop: "length (series_binop f a b) = max (length a) (length b)"
  by (simp add: series_binop_def)

lemma nth_series_binop:
  "i < max (length a) (length b) \<Longrightarrow>
   series_binop f a b ! i = cell_binop f (nth_cell a i) (nth_cell b i)"
  by (simp add: series_binop_def)

lemma length_series_scalar: "length (series_scalar f a) = length a"
  by (simp add: series_scalar_def)

lemma nth_series_scalar: "i < length a \<Longrightarrow> series_scalar f a ! i = map_option f (a ! i)"
  by (simp add: series_scalar_def)

lemma length_series_mul: "length (series_mul ia a ib b) = max (length a) (length b)"
  by (simp add: series_mul_def length_series_binop)

lemma snd_series_mul_typed:
  "snd (series_mul_typed a b) = series_mul (fst a) (snd a) (fst b) (snd b)"
  by (simp add: series_mul_typed_def)

lemma fst_setitem_typed: "fst (setitem_typed df name v) = setitem (fst df) name (snd v)"
  by (simp add: setitem_typed_def)

lemma setitem_same_rows:
  assumes "length v = nrows df"
  shows "nrows (setitem df name v) = nrows df"
    and "map_of (cols (setitem df name v)) = (map_of (cols df))(name \<mapsto> v)"
  using assms by (auto simp: setitem_def Let_def map_of_upsert reindex_col_same)

lemma setitem_empty_frame:
  "map_of (cols (setitem empty_frame name v)) = [name \<mapsto> v]"
  "nrows (setitem empty_frame name v) = length v"
  by (auto simp: setitem_def empty_frame_def Let_def reindex_def reindex_col_same)

lemma setitem_nonempty:
  assumes "0 < nrows df"
  shows "nrows (setitem df name v) = nrows df"
    and "other \<noteq> name \<Longrightarrow> map_of (cols (setitem df name v)) other = map_of (cols df) other"
  using assms by (simp_all add: setitem_def Let_def map_of_upsert)

lemma getitem_Inr: "getitem df name = Inr c \<longleftrightarrow> map_of (cols df) name = Some c"
  by (simp add: getitem_def split: option.splits)

lemma getitem_Inl:
  "getitem df name = Inl e \<longleftrightarrow> name \<notin> set (columns df) \<and> e = KeyError name"
proof (cases "map_of (cols df) name")
  case None
  then have "name \<notin> fst ` set (cols df)" by (simp add: map_of_eq_None_iff)
  with None show ?thesis by (auto simp: getitem_def columns_def)
next
  case (Some c)
  then have "name \<in> fst ` set (cols df)" by (metis map_of_eq_None_iff option.distinct(1))
  with Some show ?thesis by (simp add: getitem_def columns_def)
qed

lemma getitem_column: "name \<in> set (columns df) \<Longrightarrow> \<exists>c. getitem df name = Inr c"
  by (cases "getitem df name") (auto simp: getitem_Inl)

lemma frame_ok_length:
  assumes "frame_ok df" "getitem df name = Inr c"
  shows "length c = nrows df"
  using assms by (auto simp: frame_ok_def getitem_Inr intro: length_getitem)

lemma set_tl_columns: "set (tl (columns df)) \<subseteq> set (columns df)"
  by (cases "columns df") auto

subsection \<open>The loop of the excess-death stage\<close>

lemma excess_deaths_loop_ConsD:
  assumes "excess_deaths_loop ei ER di D (col # rest) df0 = Inr df"
  shows "\<exists>er d. getitem ER col = Inr er \<and> getitem D (''Deaths-'' @ year_of_column col) = Inr d
           \<and> excess_deaths_loop ei ER di D rest
                (setitem_typed df0 (''ED_'' @ year_of_column col)
                   (series_mul_typed (col \<in> set ei, er)
                      (''Deaths-'' @ year_of_column col \<in> set di, d))) = Inr df"
  using assms by (auto simp: Let_def split: sum.splits)

lemma excess_deaths_loop_append:
  "excess_deaths_loop ei ER di D (xs @ ys) df0 =
     (case excess_deaths_loop ei ER di D xs df0 of
        Inl e \<Rightarrow> Inl e
      | Inr df1 \<Rightarrow> excess_deaths_loop ei ER di D ys df1)"
  by (induction xs arbitrary: df0) (auto simp: Let_def split: sum.splits)

lemma length_product_column:
  assumes "frame_ok ER" "frame_ok D" "nrows D \<le> nrows ER"
    "getitem ER col = Inr er" "getitem D name = Inr d"
  shows "length (snd (series_mul_typed (ia, er) (ib, d))) = nrows ER"
  using frame_ok_length [OF assms(1,4)] frame_ok_length [OF assms(2,5)] assms(3)
  by (simp add: snd_series_mul_typed length_series_mul)

lemma excess_deaths_loop_frame:
  assumes "excess_deaths_loop ei ER di D cs df0 = Inr df"
    "frame_ok ER" "frame_ok D" "nrows D \<le> nrows ER" "nrows (fst df0) = nrows ER"
  shows "nrows (fst df) = nrows ER"
    and "name \<notin> (\<lambda>c. ''ED_'' @ year_of_column c) ` set cs \<Longrightarrow>
         map_of (cols (fst df)) name = map_of (cols (fst df0)) name"
  using assms(1,5)
proof (induction cs arbitrary: df0)
  case Nil
  { case 1 then show ?case by simp }
  { case 2 then show ?case by simp }
next
  case (Cons col rest)
  { case 1
    from excess_deaths_loop_ConsD [OF 1(1)] obtain er d where
      er: "getitem ER col = Inr er" and d: "getitem D (''Deaths-'' @ year_of_column col) = Inr d"
      and rest: "excess_deaths_loop ei ER di D rest
        (setitem_typed df0 (''ED_'' @ year_of_column col)
           (series_mul_typed (col \<in> set ei, er)
              (''Deaths-'' @ year_of_column col \<in> set di, d))) = Inr df"
      by blast
    have len: "length (snd (series_mul_typed (col \<in> set ei, er)
        (''Deaths-'' @ year_of_column col \<in> set di, d))) = nrows (fst df0)"
      using length_product_column [OF assms(2,3,4) er d] 1(2) by simp
    from Cons.IH(1) [OF rest] len 1(2) show ?case
      by (simp add: fst_setitem_typed setitem_same_rows) }
  { case 2
    from excess_deaths_loop_ConsD [OF 2(2)] obtain er d where
      er: "getitem ER col = Inr er" and d: "getitem D (''Deaths-'' @ year_of_column col) = Inr d"
      and rest: "excess_deaths_loop ei ER di D rest
        (setitem_typed df0 (''ED_'' @ year_of_column col)
           (series_mul_typed (col \<in> set ei, er)
              (''Deaths-'' @ year_of_column col \<in> set di, d))) = Inr df"
      by blast
    have len: "length (snd (series_mul_typed (col \<in> set ei, er)
        (''Deaths-'' @ year_of_column col \<in> set di, d))) = nrows (fst df0)"
      using length_product_column [OF assms(2,3,4) er d] 2(3) by simp
    from 2(1) have n1: "name \<noteq> ''ED_'' @ year_of_column col"
      and n2: "name \<notin> (\<lambda>c. ''ED_'' @ year_of_column c) ` set rest" by auto
    from Cons.IH(2) [OF n2 rest] len 2(3) n1 show ?case
      by (simp add: fst_setitem_typed setitem_same_rows) }
qed

lemma excess_deaths_loop_column:
  assumes "excess_deaths_loop ei ER di D (pre @ col # post) df0 = Inr df"
    "frame_ok ER" "frame_ok D" "nrows D \<le> nrows ER" "nrows (fst df0) = nrows ER"
    "year_of_column col \<notin> year_of_column ` set post"
  shows "\<exists>er d. getitem ER col = Inr er \<and> getitem D (''Deaths-'' @ year_of_column col) = Inr d
           \<and> getitem (fst df) (''ED_'' @ year_of_column col)
               = Inr (series_mul (col \<in> set ei) er (''Deaths-'' @ year_of_column col \<in> set di) d)"
proof -
  from assms(1) obtain df1 where
    pre: "excess_deaths_loop ei ER di D pre df0 = Inr df1" and
    step: "excess_deaths_loop ei ER di D (col # post) df1 = Inr df"
    by (auto simp: excess_deaths_loop_append split: sum.splits)
  have n1: "nrows (fst df1) = nrows ER"
    by (rule excess_deaths_loop_frame(1) [OF pre assms(2-5)])
  from excess_deaths_loop_ConsD [OF step] obtain er d where
    er: "getitem ER col = Inr er" and d: "getitem D (''Deaths-'' @ year_of_column col) = Inr d"
    and post: "excess_deaths_loop ei ER di D post
      (setitem_typed df1 (''ED_'' @ year_of_column col)
         (series_mul_typed (col \<in> set ei, er)
            (''Deaths-'' @ year_of_column col \<in> set di, d))) = Inr df"
    by blast
  define v where "v = series_mul_typed (col \<in> set ei, er)
    (''Deaths-'' @ year_of_column col \<in> set di, d)"
  have len: "length (snd v) = nrows (fst df1)"
    unfolding v_def using length_product_column [OF assms(2,3,4) er d] n1 by simp
  have n2: "nrows (fst (setitem_typed df1 (''ED_'' @ year_of_column col) v)) = nrows ER"
    using len n1 by (simp add: fst_setitem_typed setitem_same_rows)
  from assms(6) have "''ED_'' @ year_of_column col \<notin> (\<lambda>c. ''ED_'' @ year_of_column c) ` set post"
    by auto
  from excess_deaths_loop_frame(2) [OF post [folded v_def] assms(2-4) n2 this] len
  have "map_of (cols (fst df)) (''ED_'' @ year_of_column col) = Some (snd v)"
    by (simp add: fst_setitem_typed setitem_same_rows)
  with er d show ?thesis by (auto simp: getitem_Inr v_def snd_series_mul_typed)
qed

lemma excess_deaths_loop_nonempty:
  assumes "excess_deaths_loop ei ER di D cs df0 = Inr df" "0 < nrows (fst df0)"
  shows "nrows (fst df) = nrows (fst df0)"
    and "name \<notin> (\<lambda>c. ''ED_'' @ year_of_column c) ` set cs \<Longrightarrow>
         map_of (cols (fst df)) name = map_of (cols (fst df0)) name"
  using assms
proof (induction cs arbitrary: df0)
  case Nil
  { case 1 then show ?case by simp }
  { case 2 then show ?case by simp }
next
  case (Cons col rest)
  { case 1
    from excess_deaths_loop_ConsD [OF 1(1)] obtain v where
      rest: "excess_deaths_loop ei ER di D rest
        (setitem_typed df0 (''ED_'' @ year_of_column col) v) = Inr df"
      by blast
    from Cons.IH(1) [OF rest] 1(2) show ?case
      by (simp add: fst_setitem_typed setitem_nonempty) }
  { case 2
    from excess_deaths_loop_ConsD [OF 2(2)] obtain v where
      rest: "excess_deaths_loop ei ER di D rest
        (setitem_typed df0 (''ED_'' @ year_of_column col) v) = Inr df"
      by blast
    from 2(1) have n1: "name \<noteq> ''ED_'' @ year_of_column col"
      and n2: "name \<notin> (\<lambda>c. ''ED_'' @ year_of_column c) ` set rest" by auto
    from Cons.IH(2) [OF n2 rest] 2(3) n1 show ?case
      by (simp add: fst_setitem_typed setitem_nonempty) }
qed

lemma excess_deaths_loop_succeeds:
  assumes "set cs \<subseteq> set (columns ER)"
    "\<forall>c\<in>set cs. ''Deaths-'' @ year_of_column c \<in> set (columns D)"
  shows "\<exists>df. excess_deaths_loop ei ER di D cs df0 = Inr df"
  using assms
proof (induction cs arbitrary: df0)
  case Nil
  then show ?case by simp
next
  case (Cons col rest)
  from Cons.prems obtain er d where "getitem ER col = Inr er"
    "getitem D (''Deaths-'' @ year_of_column col) = Inr d"
    using getitem_column [of col ER] getitem_column [of "''Deaths-'' @ year_of_column col" D]
    by auto
  moreover from Cons.prems have "set rest \<subseteq> set (columns ER)"
    "\<forall>c\<in>set rest. ''Deaths-'' @ year_of_column c \<in> set (columns D)" by auto
  from Cons.IH [OF this]
  have "\<exists>df. excess_deaths_loop ei ER di D rest
      (setitem_typed df0 (''ED_'' @ year_of_column col)
         (series_mul_typed (col \<in> set ei, er)
            (''Deaths-'' @ year_of_column col \<in> set di, d))) = Inr df" .
  ultimately show ?case by (simp add: Let_def)
qed

lemma excess_deaths_loop_missing:
  assumes "set cs \<subseteq> set (columns ER)"
    "\<exists>c\<in>set cs. ''Deaths-'' @ year_of_column c \<notin> set (columns D)"
  shows "\<exists>k. excess_deaths_loop ei ER di D cs df0 = Inl (KeyError k)"
  using assms
proof (induction cs arbitrary: df0)
  case Nil
  then show ?case by simp
next
  case (Cons col rest)
  from Cons.prems(1) obtain er where er: "getitem ER col = Inr er"
    using getitem_column [of col ER] by auto
  show ?case
  proof (cases "getitem D (''Deaths-'' @ year_of_column col)")
    case (Inl e)
    then have "e = KeyError (''Deaths-'' @ year_of_column col)" by (simp add: getitem_Inl)
    with Inl er show ?thesis by (simp add: Let_def)
  next
    case (Inr d)
    then have "''Deaths-'' @ year_of_column col \<in> set (columns D)"
      by (metis getitem_Inl sum.distinct(1))
    with Cons.prems have "set rest \<subseteq> set (columns ER)"
      "\<exists>c\<in>set rest. ''Deaths-'' @ year_of_column c \<notin> set (columns D)" by auto
    from Cons.IH [OF this] er Inr show ?thesis by (simp add: Let_def)
  qed
qed

lemma excess_deaths_table_InrD:
  assumes "excess_deaths_table ei ER di D = Inr df"
  shows "\<exists>fid. getitem ER ''FID'' = Inr fid
           \<and> excess_deaths_loop ei ER di D (tl (columns ER))
                (setitem_typed (empty_frame, []) ''FID'' (''FID'' \<in> set ei, fid)) = Inr df"
  using assms by (auto simp: excess_deaths_table_def split: sum.splits)

lemma fst_initial_frame:
  "map_of (cols (fst (setitem_typed (empty_frame, []) name (b, v)))) = [name \<mapsto> v]"
  "nrows (fst (setitem_typed (empty_frame, []) name (b, v))) = length v"
  by (simp_all add: fst_setitem_typed setitem_empty_frame)

lemma calculate_excess_deaths_NoneD:
  assumes "calculate_excess_deaths er_file mortality_file output_file fs = (None, fs')"
    "read_csv fs er_file = Inr ER" "read_csv fs mortality_file = Inr D"
  shows "\<exists>df_out. excess_deaths_table (int64_columns fs er_file) ER
             (int64_columns fs mortality_file) D = Inr df_out
           \<and> read_csv fs' output_file = Inr (fst df_out)"
  using assms
  by (auto simp: calculate_excess_deaths_def read_csv_def to_csv_dtypes_def split: sum.splits)

text \<open>The table is computed without an error when every column that is looked up exists.\<close>

lemma excess_deaths_table_succeeds:
  assumes "''FID'' \<in> set (columns ER)"
    "\<forall>c\<in>set (tl (columns ER)). ''Deaths-'' @ year_of_column c \<in> set (columns D)"
  shows "\<exists>df. excess_deaths_table ei ER di D = Inr df"
proof -
  from assms(1) obtain fid where fid: "getitem ER ''FID'' = Inr fid"
    using getitem_column by blast
  from excess_deaths_loop_succeeds [OF set_tl_columns assms(2)] fid show ?thesis
    by (simp add: excess_deaths_table_def)
qed

lemma excess_deaths_table_missing:
  assumes "col \<in> set (tl (columns ER))" "''Deaths-'' @ year_of_column col \<notin> set (columns D)"
  shows "\<exists>k. excess_deaths_table ei ER di D = Inl (KeyError k)"
proof (cases "getitem ER ''FID''")
  case (Inl e)
  then have "e = KeyError ''FID''" by (simp add: getitem_Inl)
  with Inl show ?thesis by (simp add: excess_deaths_table_def)
next
  case (Inr fid)
  from assms have "\<exists>c\<in>set (tl (columns ER)). ''Deaths-'' @ year_of_column c \<notin> set (columns D)"
    by blast
  from excess_deaths_loop_missing [OF set_tl_columns this] Inr show ?thesis
    by (simp add: excess_deaths_table_def)
qed

lemma excess_deaths_table_FID:
  assumes "excess_deaths_table ei ER di D = Inr df_out" "frame_ok ER" "frame_ok D"
    "0 < nrows ER \<or> nrows D \<le> nrows ER"
  shows "getitem (fst df_out) ''FID'' = getitem ER ''FID''"
proof -
  from excess_deaths_table_InrD [OF assms(1)] obtain fid where
    fid: "getitem ER ''FID'' = Inr fid" and
    loop: "excess_deaths_loop ei ER di D (tl (columns ER))
             (setitem_typed (empty_frame, []) ''FID'' (''FID'' \<in> set ei, fid)) = Inr df_out"
    by blast
  have n0: "nrows (fst (setitem_typed (empty_frame, []) ''FID'' (''FID'' \<in> set ei, fid)))
      = nrows ER"
    using frame_ok_length [OF assms(2) fid] by (simp add: fst_initial_frame)
  have notin: "''FID'' \<notin> (\<lambda>c. ''ED_'' @ year_of_column c) ` set (tl (columns ER))" by auto
  have "map_of (cols (fst df_out)) ''FID''
      = map_of (cols (fst (setitem_typed (empty_frame, []) ''FID'' (''FID'' \<in> set ei, fid)))) ''FID''"
  proof (cases "0 < nrows ER")
    case True
    with n0 have "0 < nrows (fst (setitem_typed (empty_frame, []) ''FID'' (''FID'' \<in> set ei, fid)))"
      by simp
    from excess_deaths_loop_nonempty(2) [OF loop this notin] show ?thesis .
  next
    case False
    with assms(4) have "nrows D \<le> nrows ER" by simp
    from excess_deaths_loop_frame(2) [OF loop assms(2,3) this n0 notin] show ?thesis .
  qed
  then have "getitem (fst df_out) ''FID'' = Inr fid" by (simp add: fst_initial_frame getitem_Inr)
  with fid show ?thesis by simp
qed

subsection \<open>The loop of the benefit stage\<close>

lemma length_benefit_series:
  "length (benefit_series ip p65 iu pu65 ih hw)
     = max (max (length p65) (length hw)) (max (length pu65) (length hw))"
  by (simp add: benefit_series_def length_series_binop length_series_scalar length_series_mul)

lemma benefits_loop_ConsD:
  assumes "benefits_loop ih df_hw ip df65 iu df_u65 (col # rest) df0 = Inr df"
  shows "\<exists>p65 hw pu65. getitem df65 (''Pop65-'' @ year_of_column col) = Inr p65
           \<and> getitem df_hw col = Inr hw
           \<and> getitem df_u65 (''PopU65-'' @ year_of_column col) = Inr pu65
           \<and> benefits_loop ih df_hw ip df65 iu df_u65 rest
                (setitem_typed df0 (''Benefit_'' @ year_of_column col)
                   (False, benefit_series (''Pop65-'' @ year_of_column col \<in> set ip) p65
                             (''PopU65-'' @ year_of_column col \<in> set iu) pu65
                             (col \<in> set ih) hw)) = Inr df"
  using assms by (auto simp: Let_def split: sum.splits)

lemma benefits_loop_append:
  "benefits_loop ih df_hw ip df65 iu df_u65 (xs @ ys) df0 =
     (case benefits_loop ih df_hw ip df65 iu df_u65 xs df0 of
        Inl e \<Rightarrow> Inl e
      | Inr df1 \<Rightarrow> benefits_loop ih df_hw ip df65 iu df_u65 ys df1)"
  by (induction xs arbitrary: df0) (auto simp: Let_def split: sum.splits)

lemma length_benefit_column:
  assumes "frame_ok df_hw" "frame_ok df65" "frame_ok df_u65"
    "nrows df65 \<le> nrows df_hw" "nrows df_u65 \<le> nrows df_hw"
    "getitem df65 name65 = Inr p65" "getitem df_hw col = Inr hw" "getitem df_u65 name_u65 = Inr pu65"
  shows "length (benefit_series a p65 b pu65 c hw) = nrows df_hw"
  using frame_ok_length [OF assms(1,7)] frame_ok_length [OF assms(2,6)]
    frame_ok_length [OF assms(3,8)] assms(4,5)
  by (simp add: length_benefit_series)

lemma benefits_loop_frame:
  assumes "benefits_loop ih df_hw ip df65 iu df_u65 cs df0 = Inr df"
    "frame_ok df_hw" "frame_ok df65" "frame_ok df_u65"
    "nrows df65 \<le> nrows df_hw" "nrows df_u65 \<le> nrows df_hw" "nrows (fst df0) = nrows df_hw"
  shows "nrows (fst df) = nrows df_hw"
    and "name \<notin> (\<lambda>c. ''Benefit_'' @ year_of_column c) ` set cs \<Longrightarrow>
         map_of (cols (fst df)) name = map_of (cols (fst df0)) name"
  using assms(1,7)
proof (induction cs arbitrary: df0)
  case Nil
  { case 1 then show ?case by simp }
  { case 2 then show ?case by simp }
next
  case (Cons col rest)
  { case 1
    from benefits_loop_ConsD [OF 1(1)] obtain p65 hw pu65 where
      g: "getitem df65 (''Pop65-'' @ year_of_column col) = Inr p65" "getitem df_hw col = Inr hw"
        "getitem df_u65 (''PopU65-'' @ year_of_column col) = Inr pu65"
      and rest: "benefits_loop ih df_hw ip df65 iu df_u65 rest
        (setitem_typed df0 (''Benefit_'' @ year_of_column col)
           (False, benefit_series (''Pop65-'' @ year_of_column col \<in> set ip) p65
                     (''PopU65-'' @ year_of_column col \<in> set iu) pu65
                     (col \<in> set ih) hw)) = Inr df"
      by blast
    have len: "length (benefit_series (''Pop65-'' @ year_of_column col \<in> set ip) p65
        (''PopU65-'' @ year_of_column col \<in> set iu) pu65 (col \<in> set ih) hw) = nrows (fst df0)"
      using length_benefit_column [OF assms(2-6) g] 1(2) by simp
    from Cons.IH(1) [OF rest] len 1(2) show ?case
      by (simp add: fst_setitem_typed setitem_same_rows) }
  { case 2
    from benefits_loop_ConsD [OF 2(2)] obtain p65 hw pu65 where
      g: "getitem df65 (''Pop65-'' @ year_of_column col) = Inr p65" "getitem df_hw col = Inr hw"
        "getitem df_u65 (''PopU65-'' @ year_of_column col) = Inr pu65"
      and rest: "benefits_loop ih df_hw ip df65 iu df_u65 rest
        (setitem_typed df0 (''Benefit_'' @ year_of_column col)
           (False, benefit_series (''Pop65-'' @ year_of_column col \<in> set ip) p65
                     (''PopU65-'' @ year_of_column col \<in> set iu) pu65
                     (col \<in> set ih) hw)) = Inr df"
      by blast
    have len: "length (benefit_series (''Pop65-'' @ year_of_column col \<in> set ip) p65
        (''PopU65-'' @ year_of_column col \<in> set iu) pu65 (col \<in> set ih) hw) = nrows (fst df0)"
      using length_benefit_column [OF assms(2-6) g] 2(3) by simp
    from 2(1) have n1: "name \<noteq> ''Benefit_'' @ year_of_column col"
      and n2: "name \<notin> (\<lambda>c. ''Benefit_'' @ year_of_column c) ` set rest" by auto
    from Cons.IH(2) [OF n2 rest] len 2(3) n1 show ?case
      by (simp add: fst_setitem_typed setitem_same_rows) }
qed

lemma benefits_loop_column:
  assumes "benefits_loop ih df_hw ip df65 iu df_u65 (pre @ col # post) df0 = Inr df"
    "frame_ok df_hw" "frame_ok df65" "frame_ok df_u65"
    "nrows df65 \<le> nrows df_hw" "nrows df_u65 \<le> nrows df_hw" "nrows (fst df0) = nrows df_hw"
    "year_of_column col \<notin> year_of_column ` set post"
  shows "\<exists>p65 hw pu65. getitem df65 (''Pop65-'' @ year_of_column col) = Inr p65
           \<and> getitem df_hw col = Inr hw
           \<and> getitem df_u65 (''PopU65-'' @ year_of_column col) = Inr pu65
           \<and> getitem (fst df) (''Benefit_'' @ year_of_column col)
               = Inr (benefit_series (''Pop65-'' @ year_of_column col \<in> set ip) p65
                        (''PopU65-'' @ year_of_column col \<in> set iu) pu65 (col \<in> set ih) hw)"
proof -
  from assms(1) obtain df1 where
    pre: "benefits_loop ih df_hw ip df65 iu df_u65 pre df0 = Inr df1" and
    step: "benefits_loop ih df_hw ip df65 iu df_u65 (col # post) df1 = Inr df"
    by (auto simp: benefits_loop_append split: sum.splits)
  have n1: "nrows (fst df1) = nrows df_hw"
    by (rule benefits_loop_frame(1) [OF pre assms(2-7)])
  from benefits_loop_ConsD [OF step] obtain p65 hw pu65 where
    g: "getitem df65 (''Pop65-'' @ year_of_column col) = Inr p65" "getitem df_hw col = Inr hw"
      "getitem df_u65 (''PopU65-'' @ year_of_column col) = Inr pu65"
    and post: "benefits_loop ih df_hw ip df65 iu df_u65 post
      (setitem_typed df1 (''Benefit_'' @ year_of_column col)
         (False, benefit_series (''Pop65-'' @ year_of_column col \<in> set ip) p65
                   (''PopU65-'' @ year_of_column col \<in> set iu) pu65
                   (col \<in> set ih) hw)) = Inr df"
    by blast
  define v where "v = benefit_series (''Pop65-'' @ year_of_column col \<in> set ip) p65
    (''PopU65-'' @ year_of_column col \<in> set iu) pu65 (col \<in> set ih) hw"
  have len: "length v = nrows (fst df1)"
    unfolding v_def using length_benefit_column [OF assms(2-6) g] n1 by simp
  have n2: "nrows (fst (setitem_typed df1 (''Benefit_'' @ year_of_column col) (False, v)))
      = nrows df_hw"
    using len n1 by (simp add: fst_setitem_typed setitem_same_rows)
  from assms(8)
  have "''Benefit_'' @ year_of_column col \<notin> (\<lambda>c. ''Benefit_'' @ year_of_column c) ` set post"
    by auto
  from benefits_loop_frame(2) [OF post [folded v_def] assms(2-6) n2 this] len
  have "map_of (cols (fst df)) (''Benefit_'' @ year_of_column col) = Some v"
    by (simp add: fst_setitem_typed setitem_same_rows)
  with g show ?thesis by (auto simp: getitem_Inr v_def)
qed

lemma benefits_loop_nonempty:
  assumes "benefits_loop ih df_hw ip df65 iu df_u65 cs df0 = Inr df" "0 < nrows (fst df0)"
  shows "nrows (fst df) = nrows (fst df0)"
    and "name \<notin> (\<lambda>c. ''Benefit_'' @ year_of_column c) ` set cs \<Longrightarrow>
         map_of (cols (fst df)) name = map_of (cols (fst df0)) name"
  using assms
proof (induction cs arbitrary: df0)
  case Nil
  { case 1 then show ?case by simp }
  { case 2 then show ?case by simp }
next
  case (Cons col rest)
  { case 1
    from benefits_loop_ConsD [OF 1(1)] obtain v where
      rest: "benefits_loop ih df_hw ip df65 iu df_u65 rest
        (setitem_typed df0 (''Benefit_'' @ year_of_column col) v) = Inr df"
      by blast
    from Cons.IH(1) [OF rest] 1(2) show ?case
      by (simp add: fst_setitem_typed setitem_nonempty) }
  { case 2
    from benefits_loop_ConsD [OF 2(2)] obtain v where
      rest: "benefits_loop ih df_hw ip df65 iu df_u65 rest
        (setitem_typed df0 (''Benefit_'' @ year_of_column col) v) = Inr df"
      by blast
    from 2(1) have n1: "name \<noteq> ''Benefit_'' @ year_of_column col"
      and n2: "name \<notin> (\<lambda>c. ''Benefit_'' @ year_of_column c) ` set rest" by auto
    from Cons.IH(2) [OF n2 rest] 2(3) n1 show ?case
      by (simp add: fst_setitem_typed setitem_nonempty) }
qed

lemma benefits_loop_missing:
  assumes "set cs \<subseteq> set (columns df_hw)"
    "\<exists>c\<in>set cs. ''Pop65-'' @ year_of_column c \<notin> set (columns df65)
               \<or> ''PopU65-'' @ year_of_column c \<notin> set (columns df_u65)"
  shows "\<exists>k. benefits_loop ih df_hw ip df65 iu df_u65 cs df0 = Inl (KeyError k)"
  using assms
proof (induction cs arbitrary: df0)
  case Nil
  then show ?case by simp
next
  case (Cons col rest)
  from Cons.prems(1) obtain hw where hw: "getitem df_hw col = Inr hw"
    using getitem_column [of col df_hw] by auto
  show ?case
  proof (cases "getitem df65 (''Pop65-'' @ year_of_column col)")
    case (Inl e)
    then have "e = KeyError (''Pop65-'' @ year_of_column col)" by (simp add: getitem_Inl)
    with Inl show ?thesis by (simp add: Let_def)
  next
    case p: (Inr p65)
    then have in65: "''Pop65-'' @ year_of_column col \<in> set (columns df65)"
      by (metis getitem_Inl sum.distinct(1))
    show ?thesis
    proof (cases "getitem df_u65 (''PopU65-'' @ year_of_column col)")
      case (Inl e)
      then have "e = KeyError (''PopU65-'' @ year_of_column col)" by (simp add: getitem_Inl)
      with Inl p hw show ?thesis by (simp add: Let_def)
    next
      case (Inr pu65)
      then have "''PopU65-'' @ year_of_column col \<in> set (columns df_u65)"
        by (metis getitem_Inl sum.distinct(1))
      with in65 Cons.prems have "set rest \<subseteq> set (columns df_hw)"
        "\<exists>c\<in>set rest. ''Pop65-'' @ year_of_column c \<notin> set (columns df65)
               \<or> ''PopU65-'' @ year_of_column c \<notin> set (columns df_u65)" by auto
      from Cons.IH [OF this] p hw Inr show ?thesis by (simp add: Let_def)
    qed
  qed
qed

lemma benefits_table_InrD:
  assumes "benefits_table ih df_hw ip df65 iu df_u65 = Inr df"
  shows "\<exists>fid. getitem df_hw ''FID'' = Inr fid
           \<and> benefits_loop ih df_hw ip df65 iu df_u65 (tl (columns df_hw))
                (setitem_typed (empty_frame, []) ''FID'' (''FID'' \<in> set ih, fid)) = Inr df"
  using assms by (auto simp: benefits_table_def split: sum.splits)

lemma calculate_early_warning_benefits_NoneD:
  assumes "calculate_early_warning_benefits heatwave_file pop65_file pop_u65_file output_file fs
             = (None, fs')"
    "read_csv fs heatwave_file = Inr df_hw" "read_csv fs pop65_file = Inr df65"
    "read_csv fs pop_u65_file = Inr df_u65"
  shows "\<exists>df_out. benefits_table (int64_columns fs heatwave_file) df_hw
             (int64_columns fs pop65_file) df65 (int64_columns fs pop_u65_file) df_u65 = Inr df_out
           \<and> read_csv fs' output_file = Inr (fst df_out)"
  using assms
  by (auto simp: calculate_early_warning_benefits_def read_csv_def to_csv_dtypes_def
      split: sum.splits)

lemma benefits_table_missing:
  assumes "col \<in> set (tl (columns df_hw))"
    "''Pop65-'' @ year_of_column col \<notin> set (columns df65)
     \<or> ''PopU65-'' @ year_of_column col \<notin> set (columns df_u65)"
  shows "\<exists>k. benefits_table ih df_hw ip df65 iu df_u65 = Inl (KeyError k)"
proof (cases "getitem df_hw ''FID''")
  case (Inl e)
  then have "e = KeyError ''FID''" by (simp add: getitem_Inl)
  with Inl show ?thesis by (simp add: benefits_table_def)
next
  case (Inr fid)
  from assms have "\<exists>c\<in>set (tl (columns df_hw)).
      ''Pop65-'' @ year_of_column c \<notin> set (columns df65)
      \<or> ''PopU65-'' @ year_of_column c \<notin> set (columns df_u65)"
    by blast
  from benefits_loop_missing [OF set_tl_columns this] Inr show ?thesis
    by (simp add: benefits_table_def)
qed

lemma benefits_table_FID:
  assumes "benefits_table ih df_hw ip df65 iu df_u65 = Inr df_out"
    "frame_ok df_hw" "frame_ok df65" "frame_ok df_u65"
    "0 < nrows df_hw \<or> (nrows df65 \<le> nrows df_hw \<and> nrows df_u65 \<le> nrows df_hw)"
  shows "getitem (fst df_out) ''FID'' = getitem df_hw ''FID''"
proof -
  from benefits_table_InrD [OF assms(1)] obtain fid where
    fid: "getitem df_hw ''FID'' = Inr fid" and
    loop: "benefits_loop ih df_hw ip df65 iu df_u65 (tl (columns df_hw))
             (setitem_typed (empty_frame, []) ''FID'' (''FID'' \<in> set ih, fid)) = Inr df_out"
    by blast
  have n0: "nrows (fst (setitem_typed (empty_frame, []) ''FID'' (''FID'' \<in> set ih, fid)))
      = nrows df_hw"
    using frame_ok_length [OF assms(2) fid] by (simp add: fst_initial_frame)
  have notin: "''FID'' \<notin> (\<lambda>c. ''Benefit_'' @ year_of_column c) ` set (tl (columns df_hw))"
    by auto
  have "map_of (cols (fst df_out)) ''FID''
      = map_of (cols (fst (setitem_typed (empty_frame, []) ''FID'' (''FID'' \<in> set ih, fid)))) ''FID''"
  proof (cases "0 < nrows df_hw")
    case True
    with n0 have "0 < nrows (fst (setitem_typed (empty_frame, []) ''FID'' (''FID'' \<in> set ih, fid)))"
      by simp
    from benefits_loop_nonempty(2) [OF loop this notin] show ?thesis .
  next
    case False
    with assms(5) have "nrows df65 \<le> nrows df_hw" "nrows df_u65 \<le> nrows df_hw" by simp_all
    from benefits_loop_frame(2) [OF loop assms(2-4) this n0 notin] show ?thesis .
  qed
  then have "getitem (fst df_out) ''FID'' = Inr fid" by (simp add: fst_initial_frame getitem_Inr)
  with fid show ?thesis by simp
qed

subsection \<open>Products of \<^verbatim>\<open>int64\<close> cells\<close>

lemma wrap64_id: "- (2 ^ 63) \<le> k \<Longrightarrow> k < 2 ^ 63 \<Longrightarrow> wrap64 k = k"
  by (simp add: wrap64_def)

lemma int64_times_exact:
  assumes "x = of_int \<lfloor>x\<rfloor>" "y = of_int \<lfloor>y\<rfloor>" "in_int64 (x * y)"
  shows "int64_times x y = x * y"
proof -
  have xy: "x * y = of_int (\<lfloor>x\<rfloor> * \<lfloor>y\<rfloor>)" using assms(1,2) by (metis of_int_mult)
  with assms(3) have "(of_int (- (2 ^ 63)) :: real) \<le> of_int (\<lfloor>x\<rfloor> * \<lfloor>y\<rfloor>)"
    "(of_int (\<lfloor>x\<rfloor> * \<lfloor>y\<rfloor>) :: real) < of_int (2 ^ 63)"
    by (simp_all add: in_int64_def)
  then have "- (2 ^ 63) \<le> \<lfloor>x\<rfloor> * \<lfloor>y\<rfloor>" "\<lfloor>x\<rfloor> * \<lfloor>y\<rfloor> < 2 ^ 63"
    by (simp_all only: of_int_le_iff of_int_less_iff)
  then have "wrap64 (\<lfloor>x\<rfloor> * \<lfloor>y\<rfloor>) = \<lfloor>x\<rfloor> * \<lfloor>y\<rfloor>" by (rule wrap64_id)
  with xy show ?thesis by (simp add: int64_times_def)
qed

lemma int64_cell_SomeD:
  "int64_cell (Some x) \<Longrightarrow> x = of_int \<lfloor>x\<rfloor>"
  by (simp add: int64_cell_def)

lemma dtypes_ok_cell:
  assumes "dtypes_ok df ints" "getitem df name = Inr c" "name \<in> set ints" "i < length c"
  shows "int64_cell (c ! i)"
proof -
  from assms(2) have "(name, c) \<in> set (cols df)" by (simp add: getitem_Inr map_of_SomeD)
  with assms(1,3) have "list_all int64_cell c" by (auto simp: dtypes_ok_def list_all_iff)
  with assms(4) show ?thesis by (simp add: list_all_length)
qed

lemma product_cell_exact:
  assumes "both \<longrightarrow> int64_cell a \<and> int64_cell b" "fits_int64 both 1 a b"
  shows "cell_binop (times_dtype both) a b = cell_binop (*) a b"
proof (cases both)
  case False
  then show ?thesis by (simp add: times_dtype_def)
next
  case True
  with assms(1) obtain x y where a: "a = Some x" and b: "b = Some y"
    by (auto simp: int64_cell_def split: option.splits)
  from True assms(1) a b have "x = of_int \<lfloor>x\<rfloor>" "y = of_int \<lfloor>y\<rfloor>"
    by (simp_all add: int64_cell_SomeD)
  moreover from True assms(2) a b have "in_int64 (x * y)" by (simp add: fits_int64_def)
  ultimately have "int64_times x y = x * y" by (rule int64_times_exact)
  with True a b show ?thesis by (simp add: times_dtype_def cell_binop_def)
qed

lemma in_int64_times5: "in_int64 (x * 5) \<Longrightarrow> in_int64 x"
  by (auto simp: in_int64_def)

lemma benefit_cell_exact:
  assumes "b1 \<longrightarrow> int64_cell p \<and> int64_cell h" "b2 \<longrightarrow> int64_cell u \<and> int64_cell h"
    "fits_int64 b1 5 p h" "fits_int64 b2 1 u h"
  shows "cell_binop (+)
           (map_option (\<lambda>x. x / 1000000)
              (map_option (\<lambda>x. times_dtype b1 x 5) (cell_binop (times_dtype b1) p h)))
           (map_option (\<lambda>x. x / 1000000)
              (map_option (\<lambda>x. x * 0.0127) (cell_binop (times_dtype b2) u h)))
         = benefit_formula p u h"
proof -
  have second: "cell_binop (times_dtype b2) u h = cell_binop (*) u h"
    by (rule product_cell_exact [OF assms(2,4)])
  have first: "map_option (\<lambda>x. times_dtype b1 x 5) (cell_binop (times_dtype b1) p h)
      = map_option (\<lambda>x. x * 5) (cell_binop (*) p h)"
  proof (cases b1)
    case False
    then show ?thesis by (simp add: times_dtype_def)
  next
    case True
    with assms(1) obtain x y where p: "p = Some x" and h: "h = Some y"
      by (auto simp: int64_cell_def split: option.splits)
    from True assms(1) p h have ix: "x = of_int \<lfloor>x\<rfloor>" and iy: "y = of_int \<lfloor>y\<rfloor>"
      by (simp_all add: int64_cell_SomeD)
    from True assms(3) p h have fit5: "in_int64 (x * y * 5)" by (simp add: fits_int64_def)
    then have fit: "in_int64 (x * y)" by (rule in_int64_times5)
    have e1: "int64_times x y = x * y" by (rule int64_times_exact [OF ix iy fit])
    have ixy: "x * y = of_int \<lfloor>x * y\<rfloor>" using ix iy by (metis of_int_mult floor_of_int)
    have i5: "(5::real) = of_int \<lfloor>5::real\<rfloor>" by simp
    have e2: "int64_times (x * y) 5 = x * y * 5" by (rule int64_times_exact [OF ixy i5 fit5])
    from True p h e1 e2 show ?thesis by (simp add: times_dtype_def cell_binop_def)
  qed
  show ?thesis unfolding first second
    by (simp add: cell_binop_def benefit_formula_def split: option.splits)
qed

lemma nth_benefit_series:
  assumes "length p65 = n" "length pu65 = n" "length hw = n" "i < n"
    "ip \<and> ih \<longrightarrow> int64_cell (p65 ! i) \<and> int64_cell (hw ! i)"
    "iu \<and> ih \<longrightarrow> int64_cell (pu65 ! i) \<and> int64_cell (hw ! i)"
    "fits_int64 (ip \<and> ih) 5 (p65 ! i) (hw ! i)" "fits_int64 (iu \<and> ih) 1 (pu65 ! i) (hw ! i)"
  shows "benefit_series ip p65 iu pu65 ih hw ! i = benefit_formula (p65 ! i) (pu65 ! i) (hw ! i)"
proof -
  have "benefit_series ip p65 iu pu65 ih hw ! i
      = cell_binop (+)
           (map_option (\<lambda>x. x / 1000000)
              (map_option (\<lambda>x. times_dtype (ip \<and> ih) x 5)
                 (cell_binop (times_dtype (ip \<and> ih)) (p65 ! i) (hw ! i))))
           (map_option (\<lambda>x. x / 1000000)
              (map_option (\<lambda>x. x * 0.0127)
                 (cell_binop (times_dtype (iu \<and> ih)) (pu65 ! i) (hw ! i))))"
    using assms(1-4)
    by (simp add: benefit_series_def series_mul_def mul_int64_def nth_series_binop
        nth_series_scalar length_series_binop length_series_scalar nth_cell_def)
  also have "\<dots> = benefit_formula (p65 ! i) (pu65 ! i) (hw ! i)"
    by (rule benefit_cell_exact [OF assms(5-8)])
  finally show ?thesis .
qed

section \<open>Stage 3: the excess-death columns\<close>

lemma excess_deaths_column_of_run:
  assumes "read_csv fs er_file = Inr ER" "read_csv fs mortality_file = Inr D"
    and "frame_ok ER" "frame_ok D" "nrows D = nrows ER"
    and "calculate_excess_deaths er_file mortality_file output_file fs = (None, fs')"
    and "tl (columns ER) = pre @ col # post"
    and "year_of_column col \<notin> year_of_column ` set post"
  shows "\<exists>df_out er d ed. read_csv fs' output_file = Inr df_out
           \<and> getitem ER col = Inr er
           \<and> getitem D (''Deaths-'' @ year_of_column col) = Inr d
           \<and> getitem df_out (''ED_'' @ year_of_column col) = Inr ed
           \<and> length er = nrows ER \<and> length d = nrows ER \<and> length ed = nrows ER
           \<and> (\<forall>i<nrows ER. ed ! i =
                 cell_binop (times_dtype (col \<in> set (int64_columns fs er_file)
                     \<and> ''Deaths-'' @ year_of_column col \<in> set (int64_columns fs mortality_file)))
                   (er ! i) (d ! i))"
proof -
  define ei where "ei = int64_columns fs er_file"
  define di where "di = int64_columns fs mortality_file"
  from calculate_excess_deaths_NoneD [OF assms(6,1,2)] obtain df_out where
    t: "excess_deaths_table ei ER di D = Inr df_out"
    and r: "read_csv fs' output_file = Inr (fst df_out)"
    unfolding ei_def di_def by blast
  from excess_deaths_table_InrD [OF t] obtain fid where
    fid: "getitem ER ''FID'' = Inr fid" and
    loop: "excess_deaths_loop ei ER di D (pre @ col # post)
             (setitem_typed (empty_frame, []) ''FID'' (''FID'' \<in> set ei, fid)) = Inr df_out"
    by (auto simp: assms(7))
  have n0: "nrows (fst (setitem_typed (empty_frame, []) ''FID'' (''FID'' \<in> set ei, fid)))
      = nrows ER"
    using frame_ok_length [OF assms(3) fid] by (simp add: fst_initial_frame)
  from assms(5) have le: "nrows D \<le> nrows ER" by simp
  from excess_deaths_loop_column [OF loop assms(3,4) le n0 assms(8)] obtain er d where
    er: "getitem ER col = Inr er" and d: "getitem D (''Deaths-'' @ year_of_column col) = Inr d"
    and ed: "getitem (fst df_out) (''ED_'' @ year_of_column col)
      = Inr (series_mul (col \<in> set ei) er (''Deaths-'' @ year_of_column col \<in> set di) d)"
    by blast
  have ler: "length er = nrows ER" by (rule frame_ok_length [OF assms(3) er])
  have ld: "length d = nrows ER" using frame_ok_length [OF assms(4) d] assms(5) by simp
  have "length (series_mul (col \<in> set ei) er (''Deaths-'' @ year_of_column col \<in> set di) d)
      = nrows ER"
    by (simp add: length_series_mul ler ld)
  moreover have "\<forall>i<nrows ER.
      series_mul (col \<in> set ei) er (''Deaths-'' @ year_of_column col \<in> set di) d ! i
      = cell_binop (times_dtype (col \<in> set ei \<and> ''Deaths-'' @ year_of_column col \<in> set di))
          (er ! i) (d ! i)"
    by (simp add: series_mul_def mul_int64_def nth_series_binop ler ld nth_cell_def)
  ultimately show ?thesis using r er d ed ler ld unfolding ei_def di_def by blast
qed

lemma last_of_year:
  assumes "distinct (map year_of_column cs)" "col \<in> set cs"
  shows "\<exists>pre post. cs = pre @ col # post \<and> year_of_column col \<notin> year_of_column ` set post"
proof -
  from assms(2) obtain pre post where cs: "cs = pre @ col # post" by (meson split_list)
  with assms(1) have "year_of_column col \<notin> year_of_column ` set post" by auto
  with cs show ?thesis by blast
qed

text \<open>
  C4, as amended. The ER and the mortality table are as \<^verbatim>\<open>read_csv\<close> returns them, with the
  cells of their \<^verbatim>\<open>int64\<close> columns integers of the 64-bit range; they have the same number of
  rows, and the ER table has one column per year (the year suffixes of its columns after the
  first are pairwise distinct). When the stage ends without an error, the output file has,
  for each ER column after the first with year suffix \<open>y\<close>, a column \<open>ED_y\<close> with one entry
  per row. Entry \<open>i\<close> is the product of the cell of that ER column and the cell of the
  mortality column \<open>Deaths-y\<close> in row \<open>i\<close> (NaN when one of them is NaN), taken in the dtype of
  the two columns: the product of two \<^verbatim>\<open>int64\<close> columns is reduced modulo \<open>2 ^ 64\<close>. It is the
  product of the two numbers whenever one of the columns is \<^verbatim>\<open>float64\<close> or the product
  lies in the 64-bit range.
\<close>

theorem excess_deaths_product:
  assumes "read_csv fs er_file = Inr ER" "read_csv fs mortality_file = Inr D"
    and "frame_ok ER" "frame_ok D" "nrows D = nrows ER"
    and "dtypes_ok ER (int64_columns fs er_file)"
    and "dtypes_ok D (int64_columns fs mortality_file)"
    and "distinct (map year_of_column (tl (columns ER)))"
    and "col \<in> set (tl (columns ER))"
    and "calculate_excess_deaths er_file mortality_file output_file fs = (None, fs')"
  shows "\<exists>df_out er d ed.
           read_csv fs' output_file = Inr df_out
           \<and> getitem ER col = Inr er
           \<and> getitem D (''Deaths-'' @ year_of_column col) = Inr d
           \<and> getitem df_out (''ED_'' @ year_of_column col) = Inr ed
           \<and> length ed = nrows ER
           \<and> (\<forall>i<nrows ER. ed ! i =
                 cell_binop (times_dtype (col \<in> set (int64_columns fs er_file)
                     \<and> ''Deaths-'' @ year_of_column col \<in> set (int64_columns fs mortality_file)))
                   (er ! i) (d ! i))
           \<and> (\<forall>i<nrows ER.
                 fits_int64 (col \<in> set (int64_columns fs er_file)
                     \<and> ''Deaths-'' @ year_of_column col \<in> set (int64_columns fs mortality_file))
                   1 (er ! i) (d ! i)
                 \<longrightarrow> ed ! i = cell_binop (*) (er ! i) (d ! i))"
proof -
  define both where "both \<longleftrightarrow> col \<in> set (int64_columns fs er_file)
    \<and> ''Deaths-'' @ year_of_column col \<in> set (int64_columns fs mortality_file)"
  from last_of_year [OF assms(8,9)] obtain pre post where
    c: "tl (columns ER) = pre @ col # post"
    and y: "year_of_column col \<notin> year_of_column ` set post"
    by blast
  from excess_deaths_column_of_run [OF assms(1-5,10) c y] obtain df_out er d ed where
    r: "read_csv fs' output_file = Inr df_out"
    and er: "getitem ER col = Inr er"
    and d: "getitem D (''Deaths-'' @ year_of_column col) = Inr d"
    and ed: "getitem df_out (''ED_'' @ year_of_column col) = Inr ed"
    and len: "length er = nrows ER" "length d = nrows ER" "length ed = nrows ER"
    and cells: "\<forall>i<nrows ER. ed ! i = cell_binop (times_dtype both) (er ! i) (d ! i)"
    unfolding both_def by blast
  have "\<forall>i<nrows ER. fits_int64 both 1 (er ! i) (d ! i)
      \<longrightarrow> ed ! i = cell_binop (*) (er ! i) (d ! i)"
  proof (intro allI impI)
    fix i
    assume i: "i < nrows ER" and fit: "fits_int64 both 1 (er ! i) (d ! i)"
    have "both \<longrightarrow> int64_cell (er ! i) \<and> int64_cell (d ! i)"
      using dtypes_ok_cell [OF assms(6) er] dtypes_ok_cell [OF assms(7) d] i len
      by (simp add: both_def)
    from product_cell_exact [OF this fit] cells i
    show "ed ! i = cell_binop (*) (er ! i) (d ! i)" by simp
  qed
  with r er d ed len(3) cells show ?thesis unfolding both_def by blast
qed

lemma excess_example_table:
  "excess_deaths_table [''FID'', ''ER_2050''] er_example [''FID'', ''Deaths-2050''] mortality_example
     = Inr (\<lparr>nrows = 2, cols = [(''FID'', [Some 0, Some 1]), (''ED_2050'', [Some 20, Some 0])]\<rparr>,
            [''ED_2050'', ''FID''])"
  by code_simp

lemma excess_example_run:
  "calculate_excess_deaths ''data/example/ER.csv'' ''data/example/mortality.csv''
     ''outputs/excess_deaths.csv'' fs_excess
   = (None, to_csv_dtypes
              \<lparr>nrows = 2, cols = [(''FID'', [Some 0, Some 1]), (''ED_2050'', [Some 20, Some 0])]\<rparr>
              [''ED_2050'', ''FID''] ''outputs/excess_deaths.csv'' fs_excess)"
  by (simp add: calculate_excess_deaths_def read_csv_def int64_columns_def fs_excess_def
      excess_example_table)

theorem excess_deaths_product_witness:
  "calculate_excess_deaths ''data/example/ER.csv'' ''data/example/mortality.csv''
     ''outputs/excess_deaths.csv'' fs_excess
   = (None, to_csv_dtypes
              \<lparr>nrows = 2, cols = [(''FID'', [Some 0, Some 1]), (''ED_2050'', [Some 20, Some 0])]\<rparr>
              [''ED_2050'', ''FID''] ''outputs/excess_deaths.csv'' fs_excess)
   \<and> frame_ok er_example \<and> frame_ok mortality_example
   \<and> nrows mortality_example = nrows er_example
   \<and> dtypes_ok er_example (int64_columns fs_excess ''data/example/ER.csv'')
   \<and> dtypes_ok mortality_example (int64_columns fs_excess ''data/example/mortality.csv'')
   \<and> distinct (map year_of_column (tl (columns er_example)))
   \<and> ''ER_2050'' \<in> set (tl (columns er_example))
   \<and> getitem er_example ''ER_2050'' = Inr [Some 2, Some 0]
   \<and> getitem mortality_example ''Deaths-2050'' = Inr [Some 10, Some 5]
   \<and> fits_int64 True 1 (Some 2) (Some 10) \<and> fits_int64 True 1 (Some 0) (Some 5)
   \<and> cell_binop (*) (Some 2) (Some 10) = Some 20 \<and> cell_binop (*) (Some 0) (Some 5) = Some 0"
proof -
  have r1: "read_csv fs_excess ''data/example/ER.csv'' = Inr er_example"
    and r2: "read_csv fs_excess ''data/example/mortality.csv'' = Inr mortality_example"
    by (simp_all add: read_csv_def fs_excess_def)
  have i1: "int64_columns fs_excess ''data/example/ER.csv'' = [''FID'', ''ER_2050'']"
    and i2: "int64_columns fs_excess ''data/example/mortality.csv'' = [''FID'', ''Deaths-2050'']"
    by (simp_all add: int64_columns_def fs_excess_def)
  have ok1: "frame_ok er_example" and ok2: "frame_ok mortality_example" by code_simp+
  have n: "nrows mortality_example = nrows er_example" by code_simp
  have t1: "dtypes_ok er_example (int64_columns fs_excess ''data/example/ER.csv'')"
    unfolding i1 by (simp add: dtypes_ok_def er_example_def int64_cell_def in_int64_def)
  have t2: "dtypes_ok mortality_example (int64_columns fs_excess ''data/example/mortality.csv'')"
    unfolding i2 by (simp add: dtypes_ok_def mortality_example_def int64_cell_def in_int64_def)
  have y: "distinct (map year_of_column (tl (columns er_example)))" by code_simp
  have c: "''ER_2050'' \<in> set (tl (columns er_example))" by code_simp
  have g: "getitem er_example ''ER_2050'' = Inr [Some 2, Some 0]"
    "getitem mortality_example ''Deaths-2050'' = Inr [Some 10, Some 5]"
    by code_simp+
  have f: "fits_int64 True 1 (Some 2) (Some 10)" "fits_int64 True 1 (Some 0) (Some 5)"
    "cell_binop (*) (Some 2) (Some 10) = Some 20" "cell_binop (*) (Some 0) (Some 5) = Some 0"
    by (simp_all add: fits_int64_def in_int64_def cell_binop_def)
  from excess_deaths_product [OF r1 r2 ok1 ok2 n t1 t2 y c excess_example_run]
    excess_example_run ok1 ok2 n t1 t2 y c g f
  show ?thesis by blast
qed

lemma excess_large_table:
  "excess_deaths_table [''FID'', ''ER_2050''] er_large [''FID'', ''Deaths-2050''] mortality_four
     = Inr (\<lparr>nrows = 1, cols = [(''FID'', [Some 0]), (''ED_2050'', [Some 0])]\<rparr>,
            [''ED_2050'', ''FID''])"
  by code_simp

text \<open>
  An ER table and a mortality table whose cells are written as integers, so that
  \<^verbatim>\<open>read_csv\<close> types the columns \<^verbatim>\<open>int64\<close>: \<open>ER_2050 = [2 ^ 62]\<close> and \<open>Deaths-2050 = [4]\<close>. The
  product \<open>2 ^ 64\<close> is outside the 64-bit range and wraps around: the output holds
  \<open>ED_2050 = [0]\<close>, not the product.
\<close>

theorem excess_deaths_overflow_counterexample:
  "read_csv (snd (calculate_excess_deaths ''data/example/ER.csv'' ''data/example/mortality.csv''
                    ''outputs/excess_deaths.csv'' fs_large)) ''outputs/excess_deaths.csv''
     = Inr \<lparr>nrows = 1, cols = [(''FID'', [Some 0]), (''ED_2050'', [Some 0])]\<rparr>
   \<and> year_of_column ''ER_2050'' = ''2050''
   \<and> getitem er_large ''ER_2050'' = Inr [Some 4611686018427387904]
   \<and> getitem mortality_four ''Deaths-2050'' = Inr [Some 4]
   \<and> cell_binop (*) (Some 4611686018427387904) (Some 4) = Some 18446744073709551616
   \<and> cell_binop (*) (Some 4611686018427387904) (Some 4) \<noteq> Some 0"
proof -
  have "calculate_excess_deaths ''data/example/ER.csv'' ''data/example/mortality.csv''
      ''outputs/excess_deaths.csv'' fs_large
    = (None, to_csv_dtypes \<lparr>nrows = 1, cols = [(''FID'', [Some 0]), (''ED_2050'', [Some 0])]\<rparr>
               [''ED_2050'', ''FID''] ''outputs/excess_deaths.csv'' fs_large)"
    by (simp add: calculate_excess_deaths_def read_csv_def int64_columns_def fs_large_def
        excess_large_table)
  then have "read_csv (snd (calculate_excess_deaths ''data/example/ER.csv''
      ''data/example/mortality.csv'' ''outputs/excess_deaths.csv'' fs_large))
      ''outputs/excess_deaths.csv''
    = Inr \<lparr>nrows = 1, cols = [(''FID'', [Some 0]), (''ED_2050'', [Some 0])]\<rparr>"
    by (simp add: read_csv_def to_csv_dtypes_def)
  moreover have "year_of_column ''ER_2050'' = ''2050''" by code_simp
  moreover have "getitem er_large ''ER_2050'' = Inr [Some 4611686018427387904]" by code_simp
  moreover have "getitem mortality_four ''Deaths-2050'' = Inr [Some 4]" by code_simp
  moreover have "cell_binop (*) (Some 4611686018427387904) (Some 4) = Some 18446744073709551616"
    "cell_binop (*) (Some 4611686018427387904) (Some 4) \<noteq> Some 0"
    by (simp_all add: cell_binop_def)
  ultimately show ?thesis by blast
qed

section \<open>Stage 4: the benefit columns\<close>

lemma benefit_column_of_run:
  assumes "read_csv fs heatwave_file = Inr df_hw" "read_csv fs pop65_file = Inr df65"
    "read_csv fs pop_u65_file = Inr df_u65"
    and "frame_ok df_hw" "frame_ok df65" "frame_ok df_u65"
    and "nrows df65 = nrows df_hw" "nrows df_u65 = nrows df_hw"
    and "calculate_early_warning_benefits heatwave_file pop65_file pop_u65_file output_file fs
           = (None, fs')"
    and "tl (columns df_hw) = pre @ col # post"
    and "year_of_column col \<notin> year_of_column ` set post"
  shows "\<exists>df_out p65 pu65 hw. read_csv fs' output_file = Inr df_out
           \<and> getitem df65 (''Pop65-'' @ year_of_column col) = Inr p65
           \<and> getitem df_u65 (''PopU65-'' @ year_of_column col) = Inr pu65
           \<and> getitem df_hw col = Inr hw
           \<and> length p65 = nrows df_hw \<and> length pu65 = nrows df_hw \<and> length hw = nrows df_hw
           \<and> getitem df_out (''Benefit_'' @ year_of_column col)
               = Inr (benefit_series
                        (''Pop65-'' @ year_of_column col \<in> set (int64_columns fs pop65_file)) p65
                        (''PopU65-'' @ year_of_column col \<in> set (int64_columns fs pop_u65_file)) pu65
                        (col \<in> set (int64_columns fs heatwave_file)) hw)"
proof -
  define ih where "ih = int64_columns fs heatwave_file"
  define ip where "ip = int64_columns fs pop65_file"
  define iu where "iu = int64_columns fs pop_u65_file"
  from calculate_early_warning_benefits_NoneD [OF assms(9,1,2,3)] obtain df_out where
    t: "benefits_table ih df_hw ip df65 iu df_u65 = Inr df_out"
    and r: "read_csv fs' output_file = Inr (fst df_out)"
    unfolding ih_def ip_def iu_def by blast
  from benefits_table_InrD [OF t] obtain fid where
    fid: "getitem df_hw ''FID'' = Inr fid" and
    loop: "benefits_loop ih df_hw ip df65 iu df_u65 (pre @ col # post)
             (setitem_typed (empty_frame, []) ''FID'' (''FID'' \<in> set ih, fid)) = Inr df_out"
    by (auto simp: assms(10))
  have n0: "nrows (fst (setitem_typed (empty_frame, []) ''FID'' (''FID'' \<in> set ih, fid)))
      = nrows df_hw"
    using frame_ok_length [OF assms(4) fid] by (simp add: fst_initial_frame)
  from assms(7,8) have le: "nrows df65 \<le> nrows df_hw" "nrows df_u65 \<le> nrows df_hw" by simp_all
  from benefits_loop_column [OF loop assms(4-6) le n0 assms(11)] obtain p65 hw pu65 where
    g: "getitem df65 (''Pop65-'' @ year_of_column col) = Inr p65" "getitem df_hw col = Inr hw"
      "getitem df_u65 (''PopU65-'' @ year_of_column col) = Inr pu65"
    and b: "getitem (fst df_out) (''Benefit_'' @ year_of_column col)
      = Inr (benefit_series (''Pop65-'' @ year_of_column col \<in> set ip) p65
               (''PopU65-'' @ year_of_column col \<in> set iu) pu65 (col \<in> set ih) hw)"
    by blast
  have l1: "length p65 = nrows df_hw" using frame_ok_length [OF assms(5) g(1)] assms(7) by simp
  have l2: "length pu65 = nrows df_hw" using frame_ok_length [OF assms(6) g(3)] assms(8) by simp
  have l3: "length hw = nrows df_hw" by (rule frame_ok_length [OF assms(4) g(2)])
  from r g b l1 l2 l3 show ?thesis unfolding ih_def ip_def iu_def by blast
qed

text \<open>
  C5, as amended. The heatwave table and the two population tables are as \<^verbatim>\<open>read_csv\<close>
  returns them, with the cells of their \<^verbatim>\<open>int64\<close> columns integers of the 64-bit range, and
  they have the same number of rows. When the stage ends without an error, the output file
  has, for each heatwave column after the first whose year suffix \<open>y\<close> is not the suffix of a
  later heatwave column, a column \<open>Benefit_y\<close> with one entry per row. Entry \<open>i\<close> is
  \<open>p * h * (5 / 1e6) + u * h * (0.0127 / 1e6)\<close> for the cells \<open>p\<close> of \<open>Pop65-y\<close>, \<open>u\<close> of
  \<open>PopU65-y\<close> and \<open>h\<close> of the heatwave column in row \<open>i\<close> (NaN when one of them is NaN),
  whenever the integer arithmetic of the row does not overflow: \<open>p * h * 5\<close> lies in the
  64-bit range when the columns of \<open>p\<close> and \<open>h\<close> are both \<^verbatim>\<open>int64\<close>, and \<open>u * h\<close> does when the
  columns of \<open>u\<close> and \<open>h\<close> are.
\<close>

theorem early_warning_benefit_formula:
  assumes "read_csv fs heatwave_file = Inr df_hw" "read_csv fs pop65_file = Inr pop_over"
    "read_csv fs pop_u65_file = Inr pop_under"
    and "frame_ok df_hw" "frame_ok pop_over" "frame_ok pop_under"
    and "nrows pop_over = nrows df_hw" "nrows pop_under = nrows df_hw"
    and "dtypes_ok df_hw (int64_columns fs heatwave_file)"
    and "dtypes_ok pop_over (int64_columns fs pop65_file)"
    and "dtypes_ok pop_under (int64_columns fs pop_u65_file)"
    and "tl (columns df_hw) = pre @ col # post"
    and "year_of_column col \<notin> year_of_column ` set post"
    and "calculate_early_warning_benefits heatwave_file pop65_file pop_u65_file output_file fs
           = (None, fs')"
  shows "\<exists>df_out p65 pu65 hw benefit.
           read_csv fs' output_file = Inr df_out
           \<and> getitem pop_over (''Pop65-'' @ year_of_column col) = Inr p65
           \<and> getitem pop_under (''PopU65-'' @ year_of_column col) = Inr pu65
           \<and> getitem df_hw col = Inr hw
           \<and> getitem df_out (''Benefit_'' @ year_of_column col) = Inr benefit
           \<and> length benefit = nrows df_hw
           \<and> (\<forall>i<nrows df_hw.
                 fits_int64 (''Pop65-'' @ year_of_column col \<in> set (int64_columns fs pop65_file)
                     \<and> col \<in> set (int64_columns fs heatwave_file)) 5 (p65 ! i) (hw ! i)
                 \<and> fits_int64 (''PopU65-'' @ year_of_column col \<in> set (int64_columns fs pop_u65_file)
                     \<and> col \<in> set (int64_columns fs heatwave_file)) 1 (pu65 ! i) (hw ! i)
                 \<longrightarrow> benefit ! i = benefit_formula (p65 ! i) (pu65 ! i) (hw ! i))"
proof -
  define ih where "ih \<longleftrightarrow> col \<in> set (int64_columns fs heatwave_file)"
  define ip where "ip \<longleftrightarrow> ''Pop65-'' @ year_of_column col \<in> set (int64_columns fs pop65_file)"
  define iu where "iu \<longleftrightarrow> ''PopU65-'' @ year_of_column col \<in> set (int64_columns fs pop_u65_file)"
  from benefit_column_of_run [OF assms(1-8,14,12,13)] obtain df_out p65 pu65 hw where
    r: "read_csv fs' output_file = Inr df_out"
    and g: "getitem pop_over (''Pop65-'' @ year_of_column col) = Inr p65"
      "getitem pop_under (''PopU65-'' @ year_of_column col) = Inr pu65"
      "getitem df_hw col = Inr hw"
    and len: "length p65 = nrows df_hw" "length pu65 = nrows df_hw" "length hw = nrows df_hw"
    and b: "getitem df_out (''Benefit_'' @ year_of_column col)
      = Inr (benefit_series ip p65 iu pu65 ih hw)"
    unfolding ih_def ip_def iu_def by blast
  have l: "length (benefit_series ip p65 iu pu65 ih hw) = nrows df_hw"
    by (simp add: length_benefit_series len)
  have "\<forall>i<nrows df_hw.
      fits_int64 (ip \<and> ih) 5 (p65 ! i) (hw ! i) \<and> fits_int64 (iu \<and> ih) 1 (pu65 ! i) (hw ! i)
      \<longrightarrow> benefit_series ip p65 iu pu65 ih hw ! i
          = benefit_formula (p65 ! i) (pu65 ! i) (hw ! i)"
  proof (intro allI impI)
    fix i
    assume i: "i < nrows df_hw"
      and fit: "fits_int64 (ip \<and> ih) 5 (p65 ! i) (hw ! i)
        \<and> fits_int64 (iu \<and> ih) 1 (pu65 ! i) (hw ! i)"
    have c1: "ip \<and> ih \<longrightarrow> int64_cell (p65 ! i) \<and> int64_cell (hw ! i)"
      using dtypes_ok_cell [OF assms(10) g(1)] dtypes_ok_cell [OF assms(9) g(3)] i len
      by (simp add: ip_def ih_def)
    have c2: "iu \<and> ih \<longrightarrow> int64_cell (pu65 ! i) \<and> int64_cell (hw ! i)"
      using dtypes_ok_cell [OF assms(11) g(2)] dtypes_ok_cell [OF assms(9) g(3)] i len
      by (simp add: iu_def ih_def)
    from fit have f1: "fits_int64 (ip \<and> ih) 5 (p65 ! i) (hw ! i)"
      and f2: "fits_int64 (iu \<and> ih) 1 (pu65 ! i) (hw ! i)" by simp_all
    show "benefit_series ip p65 iu pu65 ih hw ! i = benefit_formula (p65 ! i) (pu65 ! i) (hw ! i)"
      by (rule nth_benefit_series [OF len i c1 c2 f1 f2])
  qed
  with r g b l show ?thesis unfolding ih_def ip_def iu_def by blast
qed

lemma benefits_example_table:
  "benefits_table [''FID'', ''HeatwaveDays_2050''] hw_example [''FID'', ''Pop65-2050'']
     pop65_example [''FID'', ''PopU65-2050''] pop_u65_example
     = Inr (\<lparr>nrows = 1, cols = [(''FID'', [Some 7]), (''Benefit_2050'', [Some 50.127])]\<rparr>,
            [''FID''])"
  by code_simp

lemma benefits_example_run:
  "calculate_early_warning_benefits ''data/example/heatwave_days.csv'' ''data/example/pop65.csv''
     ''data/example/popu65.csv'' ''outputs/early_warning_benefits.csv'' fs_benefits
   = (None, to_csv_dtypes
              \<lparr>nrows = 1, cols = [(''FID'', [Some 7]), (''Benefit_2050'', [Some 50.127])]\<rparr>
              [''FID''] ''outputs/early_warning_benefits.csv'' fs_benefits)"
  by (simp add: calculate_early_warning_benefits_def read_csv_def int64_columns_def
      fs_benefits_def benefits_example_table)

theorem early_warning_benefit_formula_witness:
  "calculate_early_warning_benefits ''data/example/heatwave_days.csv'' ''data/example/pop65.csv''
     ''data/example/popu65.csv'' ''outputs/early_warning_benefits.csv'' fs_benefits
   = (None, to_csv_dtypes
              \<lparr>nrows = 1, cols = [(''FID'', [Some 7]), (''Benefit_2050'', [Some 50.127])]\<rparr>
              [''FID''] ''outputs/early_warning_benefits.csv'' fs_benefits)
   \<and> benefit_formula (Some 1000000) (Some 1000000) (Some 10) = Some 50.127
   \<and> frame_ok hw_example \<and> frame_ok pop65_example \<and> frame_ok pop_u65_example
   \<and> nrows pop65_example = nrows hw_example \<and> nrows pop_u65_example = nrows hw_example
   \<and> dtypes_ok hw_example (int64_columns fs_benefits ''data/example/heatwave_days.csv'')
   \<and> dtypes_ok pop65_example (int64_columns fs_benefits ''data/example/pop65.csv'')
   \<and> dtypes_ok pop_u65_example (int64_columns fs_benefits ''data/example/popu65.csv'')
   \<and> tl (columns hw_example) = [] @ ''HeatwaveDays_2050'' # []
   \<and> year_of_column ''HeatwaveDays_2050'' \<notin> year_of_column ` set []
   \<and> getitem pop65_example ''Pop65-2050'' = Inr [Some 1000000]
   \<and> getitem pop_u65_example ''PopU65-2050'' = Inr [Some 1000000]
   \<and> getitem hw_example ''HeatwaveDays_2050'' = Inr [Some 10]
   \<and> fits_int64 True 5 (Some 1000000) (Some 10) \<and> fits_int64 True 1 (Some 1000000) (Some 10)"
proof -
  have r: "read_csv fs_benefits ''data/example/heatwave_days.csv'' = Inr hw_example"
    "read_csv fs_benefits ''data/example/pop65.csv'' = Inr pop65_example"
    "read_csv fs_benefits ''data/example/popu65.csv'' = Inr pop_u65_example"
    by (simp_all add: read_csv_def fs_benefits_def)
  have i1: "int64_columns fs_benefits ''data/example/heatwave_days.csv''
      = [''FID'', ''HeatwaveDays_2050'']"
    and i2: "int64_columns fs_benefits ''data/example/pop65.csv'' = [''FID'', ''Pop65-2050'']"
    and i3: "int64_columns fs_benefits ''data/example/popu65.csv'' = [''FID'', ''PopU65-2050'']"
    by (simp_all add: int64_columns_def fs_benefits_def)
  have ok: "frame_ok hw_example" "frame_ok pop65_example" "frame_ok pop_u65_example"
    by code_simp+
  have n: "nrows pop65_example = nrows hw_example" "nrows pop_u65_example = nrows hw_example"
    by code_simp+
  have t1: "dtypes_ok hw_example (int64_columns fs_benefits ''data/example/heatwave_days.csv'')"
    unfolding i1 by (simp add: dtypes_ok_def hw_example_def int64_cell_def in_int64_def)
  have t2: "dtypes_ok pop65_example (int64_columns fs_benefits ''data/example/pop65.csv'')"
    unfolding i2 by (simp add: dtypes_ok_def pop65_example_def int64_cell_def in_int64_def)
  have t3: "dtypes_ok pop_u65_example (int64_columns fs_benefits ''data/example/popu65.csv'')"
    unfolding i3 by (simp add: dtypes_ok_def pop_u65_example_def int64_cell_def in_int64_def)
  have c: "tl (columns hw_example) = [] @ ''HeatwaveDays_2050'' # []" by code_simp
  have y: "year_of_column ''HeatwaveDays_2050'' \<notin> year_of_column ` set []" by simp
  have f: "benefit_formula (Some 1000000) (Some 1000000) (Some 10) = Some 50.127"
    by (simp add: benefit_formula_def)
  have g: "getitem pop65_example ''Pop65-2050'' = Inr [Some 1000000]"
    "getitem pop_u65_example ''PopU65-2050'' = Inr [Some 1000000]"
    "getitem hw_example ''HeatwaveDays_2050'' = Inr [Some 10]"
    by code_simp+
  have fit: "fits_int64 True 5 (Some 1000000) (Some 10)"
    "fits_int64 True 1 (Some 1000000) (Some 10)"
    by (simp_all add: fits_int64_def in_int64_def)
  from early_warning_benefit_formula [OF r ok n t1 t2 t3 c y benefits_example_run]
    benefits_example_run ok n t1 t2 t3 c y f g fit
  show ?thesis by blast
qed

lemma benefits_two_table:
  "benefits_table [''FID'', ''rcp45_modelA_2050'', ''rcp85_modelA_2050''] hw_two_scenarios
     [''FID'', ''Pop65-2050''] pop65_example [''FID'', ''PopU65-2050''] pop_u65_example
     = Inr (\<lparr>nrows = 1, cols = [(''FID'', [Some 7]), (''Benefit_2050'', [Some 100.254])]\<rparr>,
            [''FID''])"
  by code_simp

text \<open>
  With the heatwave columns \<open>rcp45_modelA_2050\<close> (10 days) and \<open>rcp85_modelA_2050\<close> (20 days)
  the second assignment to \<open>Benefit_2050\<close> replaces the first: the output holds the benefit
  of 20 days, and the benefit of the 10 days of the first column is nowhere in it.
\<close>

theorem benefit_overwrite_counterexample:
  "read_csv (snd (calculate_early_warning_benefits ''data/example/heatwave_days.csv''
                    ''data/example/pop65.csv'' ''data/example/popu65.csv''
                    ''outputs/early_warning_benefits.csv'' fs_benefits_two))
       ''outputs/early_warning_benefits.csv''
     = Inr \<lparr>nrows = 1, cols = [(''FID'', [Some 7]), (''Benefit_2050'', [Some 100.254])]\<rparr>
   \<and> year_of_column ''rcp45_modelA_2050'' = ''2050''
   \<and> getitem hw_two_scenarios ''rcp45_modelA_2050'' = Inr [Some 10]
   \<and> getitem pop65_example ''Pop65-2050'' = Inr [Some 1000000]
   \<and> getitem pop_u65_example ''PopU65-2050'' = Inr [Some 1000000]
   \<and> benefit_formula (Some 1000000) (Some 1000000) (Some 10) \<noteq> Some 100.254"
proof -
  have "calculate_early_warning_benefits ''data/example/heatwave_days.csv''
      ''data/example/pop65.csv'' ''data/example/popu65.csv''
      ''outputs/early_warning_benefits.csv'' fs_benefits_two
    = (None, to_csv_dtypes
               \<lparr>nrows = 1, cols = [(''FID'', [Some 7]), (''Benefit_2050'', [Some 100.254])]\<rparr>
               [''FID''] ''outputs/early_warning_benefits.csv'' fs_benefits_two)"
    by (simp add: calculate_early_warning_benefits_def read_csv_def int64_columns_def
        fs_benefits_two_def benefits_two_table)
  then have "read_csv (snd (calculate_early_warning_benefits ''data/example/heatwave_days.csv''
      ''data/example/pop65.csv'' ''data/example/popu65.csv''
      ''outputs/early_warning_benefits.csv'' fs_benefits_two))
      ''outputs/early_warning_benefits.csv''
    = Inr \<lparr>nrows = 1, cols = [(''FID'', [Some 7]), (''Benefit_2050'', [Some 100.254])]\<rparr>"
    by (simp add: read_csv_def to_csv_dtypes_def)
  moreover have "year_of_column ''rcp45_modelA_2050'' = ''2050''" by code_simp
  moreover have "getitem hw_two_scenarios ''rcp45_modelA_2050'' = Inr [Some 10]" by code_simp
  moreover have "getitem pop65_example ''Pop65-2050'' = Inr [Some 1000000]" by code_simp
  moreover have "getitem pop_u65_example ''PopU65-2050'' = Inr [Some 1000000]" by code_simp
  moreover have "benefit_formula (Some 1000000) (Some 1000000) (Some 10) \<noteq> Some 100.254"
    by (simp add: benefit_formula_def)
  ultimately show ?thesis by blast
qed

text \<open>
  The formula fails as well when the integer arithmetic overflows. With the \<^verbatim>\<open>int64\<close> columns
  \<open>Pop65-2050 = [4 * 10 ^ 18]\<close> and \<open>HeatwaveDays_2050 = [3]\<close> the product \<open>12 * 10 ^ 18\<close> and
  its multiple by \<open>5\<close> wrap around, and the output holds \<open>4659767778871.345152\<close> where the
  formula gives \<open>60000000000000\<close>.
\<close>

lemma benefit_overflow_example:
  "benefits_table [''FID'', ''HeatwaveDays_2050''] hw_three [''FID'', ''Pop65-2050''] pop65_large
     [''FID'', ''PopU65-2050''] pop_u65_zero
     = Inr (\<lparr>nrows = 1, cols = [(''FID'', [Some 7]),
                                  (''Benefit_2050'', [Some 4659767778871.345152])]\<rparr>, [''FID''])"
  "benefit_formula (Some 4000000000000000000) (Some 0) (Some 3) = Some 60000000000000"
  by code_simp+

section \<open>Missing year columns\<close>

text \<open>
  C7. When the input files are read and some column after the first has a year \<open>y\<close> for which
  the mortality table has no column \<open>Deaths-y\<close> (excess-death stage), or for which a
  population table has no column \<open>Pop65-y\<close> or \<open>PopU65-y\<close> (benefit stage), the stage ends
  with a \<^verbatim>\<open>KeyError\<close> that reaches the caller, and it writes nothing.
\<close>

theorem missing_year_column_raises:
  "(read_csv fs er_file = Inr ER \<and> read_csv fs mortality_file = Inr D
      \<and> col \<in> set (tl (columns ER)) \<and> ''Deaths-'' @ year_of_column col \<notin> set (columns D)
    \<longrightarrow> (\<exists>k. calculate_excess_deaths er_file mortality_file output_file fs
                = (Some (KeyError k), fs)))
   \<and> (read_csv gs heatwave_file = Inr df_hw \<and> read_csv gs pop65_file = Inr pop_over
      \<and> read_csv gs pop_u65_file = Inr pop_under \<and> hcol \<in> set (tl (columns df_hw))
      \<and> (''Pop65-'' @ year_of_column hcol \<notin> set (columns pop_over)
           \<or> ''PopU65-'' @ year_of_column hcol \<notin> set (columns pop_under))
    \<longrightarrow> (\<exists>k. calculate_early_warning_benefits heatwave_file pop65_file pop_u65_file
                benefit_file gs = (Some (KeyError k), gs)))"
proof (intro conjI impI)
  assume a: "read_csv fs er_file = Inr ER \<and> read_csv fs mortality_file = Inr D
      \<and> col \<in> set (tl (columns ER)) \<and> ''Deaths-'' @ year_of_column col \<notin> set (columns D)"
  then obtain k where "excess_deaths_table (int64_columns fs er_file) ER
      (int64_columns fs mortality_file) D = Inl (KeyError k)"
    using excess_deaths_table_missing by blast
  with a show "\<exists>k. calculate_excess_deaths er_file mortality_file output_file fs
      = (Some (KeyError k), fs)"
    by (simp add: calculate_excess_deaths_def)
next
  assume a: "read_csv gs heatwave_file = Inr df_hw \<and> read_csv gs pop65_file = Inr pop_over
      \<and> read_csv gs pop_u65_file = Inr pop_under \<and> hcol \<in> set (tl (columns df_hw))
      \<and> (''Pop65-'' @ year_of_column hcol \<notin> set (columns pop_over)
           \<or> ''PopU65-'' @ year_of_column hcol \<notin> set (columns pop_under))"
  then obtain k where "benefits_table (int64_columns gs heatwave_file) df_hw
      (int64_columns gs pop65_file) pop_over (int64_columns gs pop_u65_file) pop_under
      = Inl (KeyError k)"
    using benefits_table_missing by blast
  with a show "\<exists>k. calculate_early_warning_benefits heatwave_file pop65_file pop_u65_file
      benefit_file gs = (Some (KeyError k), gs)"
    by (simp add: calculate_early_warning_benefits_def)
qed

lemma missing_example_tables:
  "excess_deaths_table ei er_2060 di mortality_one_row = Inl (KeyError ''Deaths-2060'')"
  "benefits_table ih hw_example ip pop65_example iu pop65_example
     = Inl (KeyError ''PopU65-2050'')"
  by (simp_all add: excess_deaths_table_def benefits_table_def er_2060_def mortality_one_row_def
      hw_example_def pop65_example_def getitem_def columns_def Let_def year_of_column_def)

theorem missing_year_column_raises_witness:
  "calculate_excess_deaths ''data/example/ER.csv'' ''data/example/mortality.csv''
     ''outputs/excess_deaths.csv'' fs_missing = (Some (KeyError ''Deaths-2060''), fs_missing)
   \<and> ''ER_2060'' \<in> set (tl (columns er_2060))
   \<and> ''Deaths-'' @ year_of_column ''ER_2060'' \<notin> set (columns mortality_one_row)
   \<and> calculate_early_warning_benefits ''data/example/heatwave_days.csv''
       ''data/example/pop65.csv'' ''data/example/popu65.csv''
       ''outputs/early_warning_benefits.csv'' fs_missing
     = (Some (KeyError ''PopU65-2050''), fs_missing)
   \<and> ''HeatwaveDays_2050'' \<in> set (tl (columns hw_example))
   \<and> ''PopU65-'' @ year_of_column ''HeatwaveDays_2050'' \<notin> set (columns pop65_example)"
proof -
  have r: "read_csv fs_missing ''data/example/ER.csv'' = Inr er_2060"
    "read_csv fs_missing ''data/example/mortality.csv'' = Inr mortality_one_row"
    "read_csv fs_missing ''data/example/heatwave_days.csv'' = Inr hw_example"
    "read_csv fs_missing ''data/example/pop65.csv'' = Inr pop65_example"
    "read_csv fs_missing ''data/example/popu65.csv'' = Inr pop65_example"
    by (simp_all add: read_csv_def fs_missing_def)
  have c: "''ER_2060'' \<in> set (tl (columns er_2060))"
    "''Deaths-'' @ year_of_column ''ER_2060'' \<notin> set (columns mortality_one_row)"
    "''HeatwaveDays_2050'' \<in> set (tl (columns hw_example))"
    "''PopU65-'' @ year_of_column ''HeatwaveDays_2050'' \<notin> set (columns pop65_example)"
    by code_simp+
  have e: "calculate_excess_deaths ''data/example/ER.csv'' ''data/example/mortality.csv''
      ''outputs/excess_deaths.csv'' fs_missing = (Some (KeyError ''Deaths-2060''), fs_missing)"
    "calculate_early_warning_benefits ''data/example/heatwave_days.csv''
       ''data/example/pop65.csv'' ''data/example/popu65.csv''
       ''outputs/early_warning_benefits.csv'' fs_missing
     = (Some (KeyError ''PopU65-2050''), fs_missing)"
    by (simp_all add: calculate_excess_deaths_def calculate_early_warning_benefits_def r
        missing_example_tables)
  from missing_year_column_raises [where fs = fs_missing and ER = er_2060
      and D = mortality_one_row and col = "''ER_2060''" and gs = fs_missing
      and df_hw = hw_example and pop_over = pop65_example and pop_under = pop65_example
      and hcol = "''HeatwaveDays_2050''"] r c e
  show ?thesis by blast
qed

section \<open>Stage 2: the files that the traversal writes\<close>

text \<open>
  Every file that \<open>count_heatwave_days\<close> writes or overwrites is the output of the loop body
  \<open>heatwave_leaf\<close> for a leaf table, also when the run ends with an error. The properties of
  \<open>heatwave_leaf\<close> are therefore properties of every output file of the stage.
\<close>

lemma heatwave_written_refl: "heatwave_written threshold fs fs"
  by (simp add: heatwave_written_def)

lemma heatwave_written_trans:
  "heatwave_written threshold fs fs1 \<Longrightarrow> heatwave_written threshold fs1 fs2 \<Longrightarrow>
   heatwave_written threshold fs fs2"
  unfolding heatwave_written_def by metis

lemma heatwave_written_to_csv:
  "heatwave_leaf threshold data = Inr out \<Longrightarrow>
   heatwave_written threshold fs (to_csv_dtypes out ints p fs)"
  unfolding heatwave_written_def to_csv_dtypes_def by auto

lemma heatwave_files_written:
  "heatwave_files threshold output_dir scenario model model_path fnames fs = (r, fs') \<Longrightarrow>
   heatwave_written threshold fs fs'"
proof (induction fnames arbitrary: fs)
  case Nil
  then show ?case by (simp add: heatwave_written_refl)
next
  case (Cons fname rest)
  show ?case
  proof (cases "read_csv fs (path_join model_path fname)")
    case (Inl e)
    with Cons.prems show ?thesis by (simp add: Let_def heatwave_written_refl)
  next
    case data: (Inr data)
    show ?thesis
    proof (cases "heatwave_leaf threshold data")
      case (Inl e)
      with data Cons.prems show ?thesis by (simp add: Let_def heatwave_written_refl)
    next
      case (Inr out)
      with data Cons.prems have "heatwave_files threshold output_dir scenario model model_path rest
          (to_csv_dtypes out
             (heatwave_int64 (int64_columns fs (path_join model_path fname)) data out)
             (path_join output_dir
                (scenario @ ''_'' @ model @ ''_'' @ year_of_filename fname @ ''.csv'')) fs)
          = (r, fs')"
        by (simp add: Let_def)
      from Cons.IH [OF this] heatwave_written_to_csv [OF Inr] show ?thesis
        by (blast intro: heatwave_written_trans)
    qed
  qed
qed

lemma heatwave_models_written:
  "heatwave_models threshold output_dir scenario scen_path models fs = (r, fs') \<Longrightarrow>
   heatwave_written threshold fs fs'"
proof (induction models arbitrary: fs)
  case Nil
  then show ?case by (simp add: heatwave_written_refl)
next
  case (Cons model rest)
  show ?case
  proof (cases "listdir fs (path_join scen_path model)")
    case (Inl e)
    with Cons.prems show ?thesis by (simp add: Let_def heatwave_written_refl)
  next
    case (Inr fnames)
    obtain r1 fs1 where f: "heatwave_files threshold output_dir scenario model
        (path_join scen_path model) fnames fs = (r1, fs1)"
      by (cases "heatwave_files threshold output_dir scenario model
        (path_join scen_path model) fnames fs") auto
    have w1: "heatwave_written threshold fs fs1" by (rule heatwave_files_written [OF f])
    show ?thesis
    proof (cases r1)
      case None
      with Inr f Cons.prems have "heatwave_models threshold output_dir scenario scen_path rest fs1
          = (r, fs')" by (simp add: Let_def)
      from Cons.IH [OF this] w1 show ?thesis by (blast intro: heatwave_written_trans)
    next
      case (Some e)
      with Inr f Cons.prems w1 show ?thesis by (simp add: Let_def)
    qed
  qed
qed

lemma heatwave_scenarios_written:
  "heatwave_scenarios threshold output_dir future_dir scenarios fs = (r, fs') \<Longrightarrow>
   heatwave_written threshold fs fs'"
proof (induction scenarios arbitrary: fs)
  case Nil
  then show ?case by (simp add: heatwave_written_refl)
next
  case (Cons scenario rest)
  show ?case
  proof (cases "listdir fs (path_join future_dir scenario)")
    case (Inl e)
    with Cons.prems show ?thesis by (simp add: Let_def heatwave_written_refl)
  next
    case (Inr models)
    obtain r1 fs1 where f: "heatwave_models threshold output_dir scenario
        (path_join future_dir scenario) models fs = (r1, fs1)"
      by (cases "heatwave_models threshold output_dir scenario
        (path_join future_dir scenario) models fs") auto
    have w1: "heatwave_written threshold fs fs1" by (rule heatwave_models_written [OF f])
    show ?thesis
    proof (cases r1)
      case None
      with Inr f Cons.prems have "heatwave_scenarios threshold output_dir future_dir rest fs1
          = (r, fs')" by (simp add: Let_def)
      from Cons.IH [OF this] w1 show ?thesis by (blast intro: heatwave_written_trans)
    next
      case (Some e)
      with Inr f Cons.prems w1 show ?thesis by (simp add: Let_def)
    qed
  qed
qed

lemma count_heatwave_days_written:
  assumes "count_heatwave_days future_dir threshold_file output_dir fs = (r, fs')"
    "read_csv fs threshold_file = Inr threshold"
  shows "heatwave_written threshold fs fs'"
proof (cases "listdir fs future_dir")
  case (Inl e)
  with assms show ?thesis by (simp add: count_heatwave_days_def heatwave_written_refl)
next
  case (Inr scenarios)
  with assms have "heatwave_scenarios threshold output_dir future_dir scenarios fs = (r, fs')"
    by (simp add: count_heatwave_days_def)
  then show ?thesis by (rule heatwave_scenarios_written)
qed

section \<open>The \<open>FID\<close> column of the outputs\<close>

lemma heatwave_leaf_FID:
  assumes "heatwave_leaf threshold data = Inr out" "frame_ok data" "frame_ok threshold"
    "nrows threshold \<le> nrows data"
  shows "getitem out ''FID'' = getitem (rename_unnamed data) ''FID''"
proof -
  from assms(1) obtain FID th where
    fid: "getitem (rename_unnamed data) ''FID'' = Inr FID" and
    th: "getitem threshold ''Percent975'' = Inr th" and
    out: "out = heatwave_frame FID (heatwave_counts (heatwave_temps data) th)"
    using heatwave_leaf_InrD by blast
  have l1: "length FID = nrows data" by (rule length_FID [OF assms(2) fid])
  have l2: "length th \<le> nrows data" using frame_ok_length [OF assms(3) th] assms(4) by simp
  have "max (length FID) (length (heatwave_counts (heatwave_temps data) th)) = length FID"
    using l1 l2 by (simp add: length_heatwave_counts nrows_heatwave_temps)
  then have "getitem out ''FID'' = Inr FID"
    by (simp add: out heatwave_frame_def getitem_def Let_def reindex_col_same)
  with fid show ?thesis by simp
qed

text \<open>
  C9, as amended. The tables are as \<^verbatim>\<open>read_csv\<close> returns them. In the heatwave stage the
  threshold table has no more rows than the leaf table; in the excess-death and the benefit
  stage the primary table has at least one row, or the mortality table (the population
  tables) has no more rows than it. Then the \<open>FID\<close> column of the output equals the \<open>FID\<close>
  column of the primary table, entry for entry: of the leaf table after \<open>Unnamed: 0\<close> was
  renamed (heatwave stage), of the ER table (excess-death stage), of the heatwave-days table
  (benefit stage).
\<close>

theorem fid_carried_through:
  "(heatwave_leaf threshold data = Inr out \<and> frame_ok data \<and> frame_ok threshold
      \<and> nrows threshold \<le> nrows data
    \<longrightarrow> getitem out ''FID'' = getitem (rename_unnamed data) ''FID'')
   \<and> (read_csv fs er_file = Inr ER \<and> read_csv fs mortality_file = Inr D
      \<and> frame_ok ER \<and> frame_ok D \<and> (0 < nrows ER \<or> nrows D \<le> nrows ER)
      \<and> calculate_excess_deaths er_file mortality_file output_file fs = (None, fs')
    \<longrightarrow> (\<exists>df_out. read_csv fs' output_file = Inr df_out
           \<and> getitem df_out ''FID'' = getitem ER ''FID''))
   \<and> (read_csv gs heatwave_file = Inr df_hw \<and> read_csv gs pop65_file = Inr pop_over
      \<and> read_csv gs pop_u65_file = Inr pop_under
      \<and> frame_ok df_hw \<and> frame_ok pop_over \<and> frame_ok pop_under
      \<and> (0 < nrows df_hw \<or> (nrows pop_over \<le> nrows df_hw \<and> nrows pop_under \<le> nrows df_hw))
      \<and> calculate_early_warning_benefits heatwave_file pop65_file pop_u65_file benefit_file gs
          = (None, gs')
    \<longrightarrow> (\<exists>df_out. read_csv gs' benefit_file = Inr df_out
           \<and> getitem df_out ''FID'' = getitem df_hw ''FID''))"
proof (intro conjI impI)
  assume "heatwave_leaf threshold data = Inr out \<and> frame_ok data \<and> frame_ok threshold
      \<and> nrows threshold \<le> nrows data"
  then show "getitem out ''FID'' = getitem (rename_unnamed data) ''FID''"
    using heatwave_leaf_FID by blast
next
  assume a: "read_csv fs er_file = Inr ER \<and> read_csv fs mortality_file = Inr D
      \<and> frame_ok ER \<and> frame_ok D \<and> (0 < nrows ER \<or> nrows D \<le> nrows ER)
      \<and> calculate_excess_deaths er_file mortality_file output_file fs = (None, fs')"
  then obtain df_out where "excess_deaths_table (int64_columns fs er_file) ER
      (int64_columns fs mortality_file) D = Inr df_out"
    "read_csv fs' output_file = Inr (fst df_out)"
    using calculate_excess_deaths_NoneD by blast
  with a show "\<exists>df_out. read_csv fs' output_file = Inr df_out
      \<and> getitem df_out ''FID'' = getitem ER ''FID''"
    using excess_deaths_table_FID by blast
next
  assume a: "read_csv gs heatwave_file = Inr df_hw \<and> read_csv gs pop65_file = Inr pop_over
      \<and> read_csv gs pop_u65_file = Inr pop_under
      \<and> frame_ok df_hw \<and> frame_ok pop_over \<and> frame_ok pop_under
      \<and> (0 < nrows df_hw \<or> (nrows pop_over \<le> nrows df_hw \<and> nrows pop_under \<le> nrows df_hw))
      \<and> calculate_early_warning_benefits heatwave_file pop65_file pop_u65_file benefit_file gs
          = (None, gs')"
  then obtain df_out where "benefits_table (int64_columns gs heatwave_file) df_hw
      (int64_columns gs pop65_file) pop_over (int64_columns gs pop_u65_file) pop_under
      = Inr df_out"
    "read_csv gs' benefit_file = Inr (fst df_out)"
    using calculate_early_warning_benefits_NoneD by blast
  with a show "\<exists>df_out. read_csv gs' benefit_file = Inr df_out
      \<and> getitem df_out ''FID'' = getitem df_hw ''FID''"
    using benefits_table_FID by blast
qed

lemma fid_example_facts:
  "frame_ok threshold_example" "nrows threshold_example \<le> nrows leaf_example"
  "frame_ok er_example" "frame_ok mortality_example" "nrows mortality_example \<le> nrows er_example"
  "frame_ok hw_example" "frame_ok pop65_example" "frame_ok pop_u65_example"
  "nrows pop65_example \<le> nrows hw_example" "nrows pop_u65_example \<le> nrows hw_example"
  by code_simp+

lemma fid_example_reads:
  "read_csv fs_excess ''data/example/ER.csv'' = Inr er_example"
  "read_csv fs_excess ''data/example/mortality.csv'' = Inr mortality_example"
  "read_csv fs_benefits ''data/example/heatwave_days.csv'' = Inr hw_example"
  "read_csv fs_benefits ''data/example/pop65.csv'' = Inr pop65_example"
  "read_csv fs_benefits ''data/example/popu65.csv'' = Inr pop_u65_example"
  by (simp_all add: read_csv_def fs_excess_def fs_benefits_def)

theorem fid_carried_through_witness:
  "heatwave_leaf threshold_example leaf_example
     = Inr \<lparr>nrows = 2, cols = [(''FID'', [Some 7, Some 8]), (''HeatwaveDays'', [Some 2, Some 1])]\<rparr>
   \<and> getitem (rename_unnamed leaf_example) ''FID'' = Inr [Some 7, Some 8]
   \<and> calculate_excess_deaths ''data/example/ER.csv'' ''data/example/mortality.csv''
       ''outputs/excess_deaths.csv'' fs_excess
     = (None, to_csv_dtypes
                \<lparr>nrows = 2, cols = [(''FID'', [Some 0, Some 1]), (''ED_2050'', [Some 20, Some 0])]\<rparr>
                [''ED_2050'', ''FID''] ''outputs/excess_deaths.csv'' fs_excess)
   \<and> getitem er_example ''FID'' = Inr [Some 0, Some 1]
   \<and> calculate_early_warning_benefits ''data/example/heatwave_days.csv'' ''data/example/pop65.csv''
       ''data/example/popu65.csv'' ''outputs/early_warning_benefits.csv'' fs_benefits
     = (None, to_csv_dtypes
                \<lparr>nrows = 1, cols = [(''FID'', [Some 7]), (''Benefit_2050'', [Some 50.127])]\<rparr>
                [''FID''] ''outputs/early_warning_benefits.csv'' fs_benefits)
   \<and> getitem hw_example ''FID'' = Inr [Some 7]"
proof -
  have g: "getitem (rename_unnamed leaf_example) ''FID'' = Inr [Some 7, Some 8]"
    "getitem er_example ''FID'' = Inr [Some 0, Some 1]"
    "getitem hw_example ''FID'' = Inr [Some 7]"
    by code_simp+
  from fid_carried_through [where threshold = threshold_example and data = leaf_example
      and fs = fs_excess and ER = er_example and D = mortality_example
      and gs = fs_benefits and df_hw = hw_example and pop_over = pop65_example
      and pop_under = pop_u65_example]
    leaf_example_val leaf_example_ok fid_example_facts fid_example_reads
    excess_example_run benefits_example_run g
  show ?thesis by blast
qed

text \<open>
  A threshold table of two rows and a leaf table of one row: comparison and \<^verbatim>\<open>DataFrame\<close>
  constructor align on the union of the indexes, so the output has two rows and its \<open>FID\<close>
  column has a NaN that the leaf table does not have.
\<close>

theorem fid_longer_threshold_counterexample:
  "heatwave_leaf threshold_example leaf_short
     = Inr \<lparr>nrows = 2, cols = [(''FID'', [Some 7, None]), (''HeatwaveDays'', [Some 1, Some 0])]\<rparr>
   \<and> getitem \<lparr>nrows = 2, cols = [(''FID'', [Some 7, None]), (''HeatwaveDays'', [Some 1, Some 0])]\<rparr>
         ''FID'' = Inr [Some 7, None]
   \<and> getitem (rename_unnamed leaf_short) ''FID'' = Inr [Some 7]
   \<and> getitem \<lparr>nrows = 2, cols = [(''FID'', [Some 7, None]), (''HeatwaveDays'', [Some 1, Some 0])]\<rparr>
         ''FID'' \<noteq> getitem (rename_unnamed leaf_short) ''FID''"
  by code_simp

section \<open>From stage 1 to stage 2\<close>

lemma baseline_output_header:
  assumes "calculate_baseline_threshold baseline_dir output_file fs = (None, fs')"
  shows "\<exists>vals. read_csv fs' output_file = Inr \<lparr>nrows = length vals, cols = [(''0.975'', vals)]\<rparr>"
  using assms
  by (auto simp: calculate_baseline_threshold_def baseline_percent975_def series_to_csv_def
      to_csv_def to_csv_dtypes_def read_csv_def quantile_axis1_def Let_def split: sum.splits)

lemma heatwave_leaf_on_baseline_output:
  assumes "getitem (rename_unnamed data) ''FID'' = Inr FID"
  shows "heatwave_leaf \<lparr>nrows = n, cols = [(''0.975'', vals)]\<rparr> data = Inl (KeyError ''Percent975'')"
  using assms by (simp add: heatwave_leaf_def getitem_def Let_def)

lemma pipeline_baseline:
  "baseline_percent975 fs_pipeline ''data/baseline/''
     = Inr \<lparr>sname = ''0.975'', svals = [Some 31.95]\<rparr>"
  by code_simp

lemma leaf_short_FID: "getitem (rename_unnamed leaf_short) ''FID'' = Inr [Some 7]"
  by code_simp

text \<open>
  C1. The baseline stage writes one column and no index column, but the column is named after
  the quantile level, \<open>0.975\<close>, not \<open>Percent975\<close>. Run on the file that stage 1 wrote, as the
  example at the end of \<^verbatim>\<open>core_pipeline.py\<close> does, the heatwave stage raises
  \<^verbatim>\<open>KeyError: 'Percent975'\<close> at its first leaf file and writes nothing.
\<close>

theorem baseline_output_lacks_percent975:
  "calculate_baseline_threshold ''data/baseline/'' ''outputs/baseline_percent975.csv'' fs_pipeline
     = (None, to_csv \<lparr>nrows = 1, cols = [(''0.975'', [Some 31.95])]\<rparr>
                ''outputs/baseline_percent975.csv'' fs_pipeline)
   \<and> count_heatwave_days ''data/future/'' ''outputs/baseline_percent975.csv''
       ''outputs/heatwave_days/''
       (to_csv \<lparr>nrows = 1, cols = [(''0.975'', [Some 31.95])]\<rparr>
          ''outputs/baseline_percent975.csv'' fs_pipeline)
     = (Some (KeyError ''Percent975''),
        to_csv \<lparr>nrows = 1, cols = [(''0.975'', [Some 31.95])]\<rparr>
          ''outputs/baseline_percent975.csv'' fs_pipeline)"
proof -
  have s1: "calculate_baseline_threshold ''data/baseline/'' ''outputs/baseline_percent975.csv''
      fs_pipeline
    = (None, to_csv \<lparr>nrows = 1, cols = [(''0.975'', [Some 31.95])]\<rparr>
               ''outputs/baseline_percent975.csv'' fs_pipeline)"
    by (simp add: calculate_baseline_threshold_def pipeline_baseline series_to_csv_def)
  have s2: "count_heatwave_days ''data/future/'' ''outputs/baseline_percent975.csv''
       ''outputs/heatwave_days/''
       (to_csv \<lparr>nrows = 1, cols = [(''0.975'', [Some 31.95])]\<rparr>
          ''outputs/baseline_percent975.csv'' fs_pipeline)
     = (Some (KeyError ''Percent975''),
        to_csv \<lparr>nrows = 1, cols = [(''0.975'', [Some 31.95])]\<rparr>
          ''outputs/baseline_percent975.csv'' fs_pipeline)"
    by (simp add: count_heatwave_days_def read_csv_def listdir_def to_csv_def to_csv_dtypes_def
        fs_pipeline_def
        path_join_def heatwave_leaf_on_baseline_output [OF leaf_short_FID])
  from s1 s2 show ?thesis by (rule conjI)
qed

end
